theory Spec2Isabelle
  imports Main
begin

section \<open>Data model\<close>

text \<open>
  The enumerations of \<^verbatim>\<open>validation/tenant-constraints.ts\<close> (\<^verbatim>\<open>TenantRoleEnum\<close>,
  \<^verbatim>\<open>TenantStatusEnum\<close>, \<^verbatim>\<open>InvitationStatusEnum\<close>) and the row types of
  \<^verbatim>\<open>types/tenant.ts\<close>. Identifiers are UUID strings, timestamps are milliseconds
  since the epoch, JSON documents (\<^verbatim>\<open>settings\<close>, \<^verbatim>\<open>metadata\<close>) are kept as text.
  The columns \<^verbatim>\<open>created_at\<close>, \<^verbatim>\<open>updated_at\<close> and \<^verbatim>\<open>last_login_at\<close> are
  maintained by the database and read by none of the operations below; they are left out.
\<close>

datatype role = Owner | Admin | Member | Viewer

datatype status = Active | Suspended | Cancelled

datatype invitation_status = Pending | Accepted | Expired | Revoked

type_synonym json = string

record tenant =
  t_id :: string
  t_slug :: string
  t_name :: string
  t_settings :: json
  t_status :: status

record tenant_user =
  u_id :: string
  u_tenant_id :: string
  u_clerk_user_id :: string
  u_email :: string
  u_first_name :: "string option"
  u_last_name :: "string option"
  u_role :: role
  u_status :: status
  u_metadata :: json

record tenant_invitation =
  i_id :: string
  i_tenant_id :: string
  i_email :: string
  i_role :: role
  i_invited_by :: "string option"
  i_token :: string
  i_status :: invitation_status
  i_expires_at :: int
  i_accepted_at :: "int option"

text \<open>The error classes of \<^verbatim>\<open>errors/tenant-errors.ts\<close> that the services throw, zod's
  \<^verbatim>\<open>ZodError\<close>, the plain \<^verbatim>\<open>Error\<close> of the client and the middleware, the
  \<^verbatim>\<open>TypeError\<close> of the language, and the request error of the Prisma client (with its
  code).\<close>

datatype error =
    TenantBusinessRuleError string
  | TenantNotFoundError string
  | TenantUserNotFoundError string
  | ZodError
  | Error string
  | TypeError string
  | PrismaClientKnownRequestError string

section \<open>The client: store, session and promises\<close>

record store =
  tenants_tbl :: "tenant list"
  tenant_users_tbl :: "tenant_user list"
  tenant_invitations_tbl :: "tenant_invitation list"

text \<open>
  A table is reached either through the client itself (\<^verbatim>\<open>this.prisma.tenant_users\<close>) or
  through the transaction handle that \<^verbatim>\<open>$transaction\<close> passes to its callback
  (\<^verbatim>\<open>tx.tenant_users\<close>). Every table access is recorded with the handle it went through
  and the value the session setting \<^verbatim>\<open>app.current_tenant_id\<close> had at that moment.
\<close>

datatype handle = ThisPrisma | Tx

datatype table = Tenants | TenantUsers | TenantInvitations

record access =
  a_table :: table
  a_handle :: handle
  a_scope :: string

text \<open>
  \<^verbatim>\<open>TenantAwarePrismaClient\<close>: the database behind it, the value the database session
  holds for the setting \<^verbatim>\<open>app.current_tenant_id\<close> (empty when no tenant is bound), the
  private field \<^verbatim>\<open>tenantId\<close>, and the trace of table accesses. A raw statement can
  fail on the connection: \<open>faults\<close> lists what the connection answers to the raw
  statements to come, in order, an error or nothing; beyond the list every statement goes
  through.
\<close>

record client =
  db :: store
  current_tenant_id :: string
  tenantId :: "string option"
  log :: "access list"
  faults :: "error option list"

text \<open>An \<^verbatim>\<open>async\<close> function runs on the client and either rejects with an error or
  resolves with a value.\<close>

type_synonym 'a promise = "client \<Rightarrow> (error + 'a) \<times> client"

definition resolve :: "'a \<Rightarrow> 'a promise" where
  "resolve v c = (Inr v, c)"

definition reject :: "error \<Rightarrow> 'a promise" where
  "reject e c = (Inl e, c)"

definition await :: "'a promise \<Rightarrow> ('a \<Rightarrow> 'b promise) \<Rightarrow> 'b promise" where
  "await m f c = (case m c of (Inl e, c') \<Rightarrow> (Inl e, c') | (Inr v, c') \<Rightarrow> f v c')"

definition touch :: "handle \<Rightarrow> table \<Rightarrow> unit promise" where
  "touch h tb c =
     (Inr (), c\<lparr>log := log c @ [\<lparr>a_table = tb, a_handle = h, a_scope = current_tenant_id c\<rparr>]\<rparr>)"

subsection \<open>The generated Prisma client\<close>

text \<open>
  Modelled from the spec: the generated Prisma client (\<^verbatim>\<open>prisma/generated\<close>) is produced by
  the type-generation step and is not part of the sources. Its table accessors are modelled
  as the typed CRUD capability the spec describes: \<^verbatim>\<open>findFirst\<close> returns the first row
  that satisfies the \<^verbatim>\<open>where\<close> filter, \<^verbatim>\<open>findUnique\<close> the row with the given unique
  key, \<^verbatim>\<open>count\<close> the number of matching rows; \<^verbatim>\<open>create\<close> appends a row under the id
  the database generates for it (passed in); \<^verbatim>\<open>update\<close> and \<^verbatim>\<open>delete\<close> act on the
  row with the given id and are refused when there is none. \<^verbatim>\<open>$transaction\<close> runs its
  callback and, as the spec says of the transaction-wrapped callback style, commits on
  normal completion and rolls back on any raised error.

  The database refuses a write that breaks a key or a reference (the spec's data model,
  and the schema printed in \<^verbatim>\<open>memory-bank/activeContext.md\<close>): row ids and the tenant
  slug are unique; a membership's external identity is unique across the system and its
  email within the tenant; an invitation's token is unique and a tenant has at most one
  pending invitation per email; a membership and an invitation refer to an existing
  tenant, an invitation's inviter to an existing membership, and a membership that
  invitations refer to cannot be deleted. A broken key is reported as \<^verbatim>\<open>P2002\<close>, a
  broken reference as \<^verbatim>\<open>P2003\<close>. The services update only a membership's role and
  status and an invitation's status and acceptance time, which no key covers. The check
  constraints on role and status are the validation layer's since it replaced them.
\<close>

definition transaction :: "(handle \<Rightarrow> 'a promise) \<Rightarrow> 'a promise" where
  "transaction callback c =
     (case callback Tx c of
        (Inl e, c') \<Rightarrow> (Inl e, c'\<lparr>db := db c\<rparr>)
      | (Inr v, c') \<Rightarrow> (Inr v, c'))"

definition tenants_findUnique_slug :: "handle \<Rightarrow> string \<Rightarrow> tenant option promise" where
  "tenants_findUnique_slug h s =
     await (touch h Tenants) (\<lambda>_ c. (Inr (find (\<lambda>t. t_slug t = s) (tenants_tbl (db c))), c))"

definition tenants_findUnique :: "handle \<Rightarrow> string \<Rightarrow> tenant option promise" where
  "tenants_findUnique h i =
     await (touch h Tenants) (\<lambda>_ c. (Inr (find (\<lambda>t. t_id t = i) (tenants_tbl (db c))), c))"

definition tenants_create :: "handle \<Rightarrow> tenant \<Rightarrow> tenant promise" where
  "tenants_create h row =
     await (touch h Tenants) (\<lambda>_ c.
       if list_ex (\<lambda>t. t_id t = t_id row \<or> t_slug t = t_slug row) (tenants_tbl (db c))
       then (Inl (PrismaClientKnownRequestError ''P2002''), c)
       else (Inr row, c\<lparr>db := (db c)\<lparr>tenants_tbl := tenants_tbl (db c) @ [row]\<rparr>\<rparr>))"

definition tenants_update_status :: "handle \<Rightarrow> string \<Rightarrow> status \<Rightarrow> tenant promise" where
  "tenants_update_status h i st =
     await (touch h Tenants) (\<lambda>_ c.
       case find (\<lambda>t. t_id t = i) (tenants_tbl (db c)) of
         None \<Rightarrow> (Inl (PrismaClientKnownRequestError ''P2025''), c)
       | Some t \<Rightarrow>
           (Inr (t\<lparr>t_status := st\<rparr>),
            c\<lparr>db := (db c)\<lparr>tenants_tbl :=
                map (\<lambda>x. if t_id x = i then x\<lparr>t_status := st\<rparr> else x) (tenants_tbl (db c))\<rparr>\<rparr>))"

text \<open>Deleting a tenant cascades to its memberships and invitations.\<close>

definition tenants_delete :: "handle \<Rightarrow> string \<Rightarrow> tenant promise" where
  "tenants_delete h i =
     await (touch h Tenants) (\<lambda>_ c.
       case find (\<lambda>t. t_id t = i) (tenants_tbl (db c)) of
         None \<Rightarrow> (Inl (PrismaClientKnownRequestError ''P2025''), c)
       | Some t \<Rightarrow>
           (Inr t,
            c\<lparr>db := (db c)\<lparr>
                tenants_tbl := filter (\<lambda>x. t_id x \<noteq> i) (tenants_tbl (db c)),
                tenant_users_tbl := filter (\<lambda>u. u_tenant_id u \<noteq> i) (tenant_users_tbl (db c)),
                tenant_invitations_tbl :=
                  filter (\<lambda>v. i_tenant_id v \<noteq> i) (tenant_invitations_tbl (db c))\<rparr>\<rparr>))"

definition tenant_users_findFirst ::
  "handle \<Rightarrow> (tenant_user \<Rightarrow> bool) \<Rightarrow> tenant_user option promise" where
  "tenant_users_findFirst h p =
     await (touch h TenantUsers) (\<lambda>_ c. (Inr (find p (tenant_users_tbl (db c))), c))"

definition tenant_users_findUnique :: "handle \<Rightarrow> string \<Rightarrow> tenant_user option promise" where
  "tenant_users_findUnique h i =
     await (touch h TenantUsers) (\<lambda>_ c.
       (Inr (find (\<lambda>u. u_id u = i) (tenant_users_tbl (db c))), c))"

definition tenant_users_count :: "handle \<Rightarrow> (tenant_user \<Rightarrow> bool) \<Rightarrow> nat promise" where
  "tenant_users_count h p =
     await (touch h TenantUsers) (\<lambda>_ c. (Inr (length (filter p (tenant_users_tbl (db c)))), c))"

definition tenant_users_conflict :: "tenant_user \<Rightarrow> tenant_user \<Rightarrow> bool" where
  "tenant_users_conflict row u \<longleftrightarrow>
     u_id u = u_id row \<or> u_clerk_user_id u = u_clerk_user_id row
     \<or> (u_tenant_id u = u_tenant_id row \<and> u_email u = u_email row)"

definition tenant_users_create :: "handle \<Rightarrow> tenant_user \<Rightarrow> tenant_user promise" where
  "tenant_users_create h row =
     await (touch h TenantUsers) (\<lambda>_ c.
       if list_ex (tenant_users_conflict row) (tenant_users_tbl (db c))
       then (Inl (PrismaClientKnownRequestError ''P2002''), c)
       else if list_ex (\<lambda>t. t_id t = u_tenant_id row) (tenants_tbl (db c))
       then (Inr row, c\<lparr>db := (db c)\<lparr>tenant_users_tbl := tenant_users_tbl (db c) @ [row]\<rparr>\<rparr>)
       else (Inl (PrismaClientKnownRequestError ''P2003''), c))"

definition tenant_users_update ::
  "handle \<Rightarrow> string \<Rightarrow> (tenant_user \<Rightarrow> tenant_user) \<Rightarrow> tenant_user promise" where
  "tenant_users_update h i f =
     await (touch h TenantUsers) (\<lambda>_ c.
       case find (\<lambda>u. u_id u = i) (tenant_users_tbl (db c)) of
         None \<Rightarrow> (Inl (PrismaClientKnownRequestError ''P2025''), c)
       | Some u \<Rightarrow>
           (Inr (f u),
            c\<lparr>db := (db c)\<lparr>tenant_users_tbl :=
                map (\<lambda>x. if u_id x = i then f x else x) (tenant_users_tbl (db c))\<rparr>\<rparr>))"

definition tenant_users_delete :: "handle \<Rightarrow> string \<Rightarrow> tenant_user promise" where
  "tenant_users_delete h i =
     await (touch h TenantUsers) (\<lambda>_ c.
       case find (\<lambda>u. u_id u = i) (tenant_users_tbl (db c)) of
         None \<Rightarrow> (Inl (PrismaClientKnownRequestError ''P2025''), c)
       | Some u \<Rightarrow>
           if list_ex (\<lambda>v. i_invited_by v = Some i) (tenant_invitations_tbl (db c))
           then (Inl (PrismaClientKnownRequestError ''P2003''), c)
           else (Inr u,
                 c\<lparr>db := (db c)\<lparr>tenant_users_tbl :=
                     filter (\<lambda>x. u_id x \<noteq> i) (tenant_users_tbl (db c))\<rparr>\<rparr>))"

definition tenant_invitations_findFirst ::
  "handle \<Rightarrow> (tenant_invitation \<Rightarrow> bool) \<Rightarrow> tenant_invitation option promise" where
  "tenant_invitations_findFirst h p =
     await (touch h TenantInvitations) (\<lambda>_ c.
       (Inr (find p (tenant_invitations_tbl (db c))), c))"

definition tenant_invitations_findUnique ::
  "handle \<Rightarrow> string \<Rightarrow> tenant_invitation option promise" where
  "tenant_invitations_findUnique h i =
     await (touch h TenantInvitations) (\<lambda>_ c.
       (Inr (find (\<lambda>v. i_id v = i) (tenant_invitations_tbl (db c))), c))"

definition tenant_invitations_conflict ::
  "tenant_invitation \<Rightarrow> tenant_invitation \<Rightarrow> bool" where
  "tenant_invitations_conflict row v \<longleftrightarrow>
     i_id v = i_id row \<or> i_token v = i_token row
     \<or> (i_status row = Pending \<and> i_status v = Pending
         \<and> i_tenant_id v = i_tenant_id row \<and> i_email v = i_email row)"

definition tenant_invitations_refer :: "tenant_invitation \<Rightarrow> store \<Rightarrow> bool" where
  "tenant_invitations_refer row s \<longleftrightarrow>
     list_ex (\<lambda>t. t_id t = i_tenant_id row) (tenants_tbl s)
     \<and> (case i_invited_by row of
          None \<Rightarrow> True
        | Some b \<Rightarrow> list_ex (\<lambda>u. u_id u = b) (tenant_users_tbl s))"

definition tenant_invitations_create ::
  "handle \<Rightarrow> tenant_invitation \<Rightarrow> tenant_invitation promise" where
  "tenant_invitations_create h row =
     await (touch h TenantInvitations) (\<lambda>_ c.
       if list_ex (tenant_invitations_conflict row) (tenant_invitations_tbl (db c))
       then (Inl (PrismaClientKnownRequestError ''P2002''), c)
       else if tenant_invitations_refer row (db c)
       then (Inr row,
             c\<lparr>db := (db c)\<lparr>tenant_invitations_tbl := tenant_invitations_tbl (db c) @ [row]\<rparr>\<rparr>)
       else (Inl (PrismaClientKnownRequestError ''P2003''), c))"

definition tenant_invitations_update ::
  "handle \<Rightarrow> string \<Rightarrow> (tenant_invitation \<Rightarrow> tenant_invitation) \<Rightarrow>
   tenant_invitation promise" where
  "tenant_invitations_update h i f =
     await (touch h TenantInvitations) (\<lambda>_ c.
       case find (\<lambda>v. i_id v = i) (tenant_invitations_tbl (db c)) of
         None \<Rightarrow> (Inl (PrismaClientKnownRequestError ''P2025''), c)
       | Some v \<Rightarrow>
           (Inr (f v),
            c\<lparr>db := (db c)\<lparr>tenant_invitations_tbl :=
                map (\<lambda>x. if i_id x = i then f x else x) (tenant_invitations_tbl (db c))\<rparr>\<rparr>))"

section \<open>Validation layer\<close>

text \<open>
  \<^verbatim>\<open>validation/tenant-constraints.ts\<close>. The payloads arrive as \<^verbatim>\<open>unknown\<close>; the model
  types the required fields as strings and keeps what the schemas parse: optional fields,
  enumeration fields given as text, and the defaults. zod's own format checks
  (\<^verbatim>\<open>uuid()\<close>, \<^verbatim>\<open>email()\<close>) belong to the library and are parameters.
\<close>

record zod =
  z_uuid :: "string \<Rightarrow> bool"
  z_email :: "string \<Rightarrow> bool"

definition TenantRoleEnum :: "string \<Rightarrow> role option" where
  "TenantRoleEnum s =
     (if s = ''owner'' then Some Owner
      else if s = ''admin'' then Some Admin
      else if s = ''member'' then Some Member
      else if s = ''viewer'' then Some Viewer
      else None)"

definition TenantStatusEnum :: "string \<Rightarrow> status option" where
  "TenantStatusEnum s =
     (if s = ''active'' then Some Active
      else if s = ''suspended'' then Some Suspended
      else if s = ''cancelled'' then Some Cancelled
      else None)"

definition InvitationStatusEnum :: "string \<Rightarrow> invitation_status option" where
  "InvitationStatusEnum s =
     (if s = ''pending'' then Some Pending
      else if s = ''accepted'' then Some Accepted
      else if s = ''expired'' then Some Expired
      else if s = ''revoked'' then Some Revoked
      else None)"

text \<open>An enumeration field with a default: absent gives the default, present is parsed.\<close>

definition with_default :: "(string \<Rightarrow> 'a option) \<Rightarrow> 'a \<Rightarrow> string option \<Rightarrow> 'a option" where
  "with_default parse d x = (case x of None \<Rightarrow> Some d | Some s \<Rightarrow> parse s)"

record user_input =
  in_tenantId :: string
  in_clerkUserId :: string
  in_email :: string
  in_firstName :: "string option"
  in_lastName :: "string option"
  in_role :: "string option"
  in_status :: "string option"
  in_metadata :: "json option"

record TenantUserData =
  d_tenantId :: string
  d_clerkUserId :: string
  d_email :: string
  d_firstName :: "string option"
  d_lastName :: "string option"
  d_role :: role
  d_status :: status
  d_metadata :: json

definition validateTenantUser :: "zod \<Rightarrow> user_input \<Rightarrow> error + TenantUserData" where
  "validateTenantUser z x =
     (case (with_default TenantRoleEnum Member (in_role x),
            with_default TenantStatusEnum Active (in_status x)) of
        (Some r, Some st) \<Rightarrow>
          if z_uuid z (in_tenantId x) \<and> 1 \<le> length (in_clerkUserId x)
             \<and> z_email z (in_email x) \<and> length (in_email x) \<le> 255
          then Inr \<lparr>d_tenantId = in_tenantId x, d_clerkUserId = in_clerkUserId x,
                    d_email = in_email x, d_firstName = in_firstName x,
                    d_lastName = in_lastName x, d_role = r, d_status = st,
                    d_metadata = (case in_metadata x of None \<Rightarrow> ''{}'' | Some m \<Rightarrow> m)\<rparr>
          else Inl ZodError
      | _ \<Rightarrow> Inl ZodError)"

definition validateTenantUserRole :: "string \<Rightarrow> error + role" where
  "validateTenantUserRole s = (case TenantRoleEnum s of None \<Rightarrow> Inl ZodError | Some r \<Rightarrow> Inr r)"

definition validateTenantUserStatus :: "string \<Rightarrow> error + status" where
  "validateTenantUserStatus s =
     (case TenantStatusEnum s of None \<Rightarrow> Inl ZodError | Some st \<Rightarrow> Inr st)"

record tenant_input =
  in_slug :: string
  in_name :: string
  in_settings :: "json option"
  in_tenant_status :: "string option"

record TenantData =
  d_slug :: string
  d_name :: string
  d_settings :: json
  d_tenant_status :: status

text \<open>The slug pattern \<^verbatim>\<open>/^[a-z0-9-]+$/\<close>.\<close>

definition slug_regex :: "string \<Rightarrow> bool" where
  "slug_regex s =
     (s \<noteq> [] \<and> list_all (\<lambda>ch. ch \<in> set ''abcdefghijklmnopqrstuvwxyz0123456789-'') s)"

definition validateTenant :: "tenant_input \<Rightarrow> error + TenantData" where
  "validateTenant x =
     (case with_default TenantStatusEnum Active (in_tenant_status x) of
        Some st \<Rightarrow>
          if 2 \<le> length (in_slug x) \<and> length (in_slug x) \<le> 50 \<and> slug_regex (in_slug x)
             \<and> 1 \<le> length (in_name x) \<and> length (in_name x) \<le> 100
          then Inr \<lparr>d_slug = in_slug x, d_name = in_name x,
                    d_settings = (case in_settings x of None \<Rightarrow> ''{}'' | Some m \<Rightarrow> m),
                    d_tenant_status = st\<rparr>
          else Inl ZodError
      | None \<Rightarrow> Inl ZodError)"

record invitation_input =
  in_inv_tenantId :: string
  in_inv_email :: string
  in_inv_role :: "string option"
  in_inv_status :: "string option"
  in_invitedBy :: "string option"

record TenantInvitationData =
  d_inv_tenantId :: string
  d_inv_email :: string
  d_inv_role :: role
  d_inv_status :: invitation_status
  d_invitedBy :: "string option"
  d_token :: string
  d_expiresAt :: int

text \<open>
  \<^verbatim>\<open>createInvitation\<close> spreads the token and the expiry over the caller's payload before
  validating, so the validator receives them beside the payload. Both date checks of the
  schema compare the expiry with a reading of the clock, the argument \<open>now\<close>.
\<close>

definition validateTenantInvitation ::
  "zod \<Rightarrow> int \<Rightarrow> invitation_input \<Rightarrow> string \<Rightarrow> int \<Rightarrow> error + TenantInvitationData" where
  "validateTenantInvitation z now x token expiresAt =
     (case (with_default TenantRoleEnum Member (in_inv_role x),
            with_default InvitationStatusEnum Pending (in_inv_status x)) of
        (Some r, Some st) \<Rightarrow>
          if z_uuid z (in_inv_tenantId x)
             \<and> z_email z (in_inv_email x) \<and> length (in_inv_email x) \<le> 255
             \<and> (case in_invitedBy x of None \<Rightarrow> True | Some b \<Rightarrow> z_uuid z b)
             \<and> 1 \<le> length token \<and> now \<le> expiresAt \<and> now < expiresAt
          then Inr \<lparr>d_inv_tenantId = in_inv_tenantId x, d_inv_email = in_inv_email x,
                    d_inv_role = r, d_inv_status = st, d_invitedBy = in_invitedBy x,
                    d_token = token, d_expiresAt = expiresAt\<rparr>
          else Inl ZodError
      | _ \<Rightarrow> Inl ZodError)"

section \<open>Service layer: memberships\<close>

text \<open>\<^verbatim>\<open>services/tenant-user-service.ts\<close>, class \<^verbatim>\<open>TenantUserService\<close>.\<close>

definition enforceBusinessRules :: "TenantUserData \<Rightarrow> unit promise" where
  "enforceBusinessRules userData =
     await (if d_role userData = Owner
            then await (tenant_users_findFirst ThisPrisma
                          (\<lambda>u. u_tenant_id u = d_tenantId userData \<and> u_role u = Owner))
                   (\<lambda>existingOwner. case existingOwner of
                        Some _ \<Rightarrow> reject (TenantBusinessRuleError ''Tenant already has an owner'')
                      | None \<Rightarrow> resolve ())
            else resolve ())
     (\<lambda>_. await (tenant_users_findFirst ThisPrisma
                    (\<lambda>u. u_tenant_id u = d_tenantId userData
                          \<and> u_clerk_user_id u = d_clerkUserId userData))
     (\<lambda>existingUser. case existingUser of
          Some _ \<Rightarrow> reject (TenantBusinessRuleError ''User already exists in this tenant'')
        | None \<Rightarrow>
     await (tenant_users_findFirst ThisPrisma
              (\<lambda>u. u_tenant_id u = d_tenantId userData \<and> u_email u = d_email userData))
     (\<lambda>existingEmail. case existingEmail of
          Some _ \<Rightarrow> reject (TenantBusinessRuleError ''Email already exists in this tenant'')
        | None \<Rightarrow> resolve ())))"

text \<open>The argument \<open>new_id\<close> is the id the database generates for the inserted row.\<close>

definition createUser :: "zod \<Rightarrow> user_input \<Rightarrow> string \<Rightarrow> tenant_user promise" where
  "createUser z userData new_id =
     (case validateTenantUser z userData of
        Inl e \<Rightarrow> reject e
      | Inr validatedData \<Rightarrow>
          await (enforceBusinessRules validatedData)
          (\<lambda>_. transaction (\<lambda>tx.
             await (tenant_users_findFirst tx
                      (\<lambda>u. u_tenant_id u = d_tenantId validatedData
                            \<and> u_clerk_user_id u = d_clerkUserId validatedData))
             (\<lambda>existingUser. case existingUser of
                  Some _ \<Rightarrow>
                    reject (TenantBusinessRuleError ''User already exists in this tenant'')
                | None \<Rightarrow>
                    tenant_users_create tx
                      \<lparr>u_id = new_id,
                       u_tenant_id = d_tenantId validatedData,
                       u_clerk_user_id = d_clerkUserId validatedData,
                       u_email = d_email validatedData,
                       u_first_name = d_firstName validatedData,
                       u_last_name = d_lastName validatedData,
                       u_role = d_role validatedData,
                       u_status = d_status validatedData,
                       u_metadata = d_metadata validatedData\<rparr>))))"

definition enforceOwnershipRules :: "handle \<Rightarrow> string \<Rightarrow> role \<Rightarrow> string \<Rightarrow> unit promise" where
  "enforceOwnershipRules tx userId newRole tenant_id =
     (if newRole = Owner
      then await (tenant_users_findFirst tx
                    (\<lambda>u. u_tenant_id u = tenant_id \<and> u_role u = Owner \<and> u_id u \<noteq> userId))
           (\<lambda>existingOwner. case existingOwner of
                Some _ \<Rightarrow>
                  reject (TenantBusinessRuleError
                    ''Cannot assign owner role - tenant already has an owner'')
              | None \<Rightarrow> resolve ())
      else await (tenant_users_count tx
                    (\<lambda>u. u_tenant_id u = tenant_id \<and> u_role u = Admin \<and> u_id u \<noteq> userId))
           (\<lambda>adminCount.
              if adminCount = 0
              then reject (TenantBusinessRuleError
                     ''Cannot remove owner role - tenant must have at least one admin'')
              else resolve ()))"

definition updateUserRole :: "string \<Rightarrow> string \<Rightarrow> tenant_user promise" where
  "updateUserRole userId newRole =
     (case validateTenantUserRole newRole of
        Inl e \<Rightarrow> reject e
      | Inr validRole \<Rightarrow>
          transaction (\<lambda>tx.
            await (tenant_users_findUnique tx userId)
            (\<lambda>currentUser. case currentUser of
                 None \<Rightarrow> reject (TenantUserNotFoundError ''User not found'')
               | Some cu \<Rightarrow>
                   await (if validRole = Owner \<or> u_role cu = Owner
                          then enforceOwnershipRules tx userId validRole (u_tenant_id cu)
                          else resolve ())
                   (\<lambda>_. tenant_users_update tx userId (\<lambda>u. u\<lparr>u_role := validRole\<rparr>)))))"

definition updateUserStatus :: "string \<Rightarrow> string \<Rightarrow> tenant_user promise" where
  "updateUserStatus userId newStatus =
     (case validateTenantUserStatus newStatus of
        Inl e \<Rightarrow> reject e
      | Inr validStatus \<Rightarrow>
          transaction (\<lambda>tx.
            await (tenant_users_findUnique tx userId)
            (\<lambda>currentUser. case currentUser of
                 None \<Rightarrow> reject (TenantUserNotFoundError ''User not found'')
               | Some cu \<Rightarrow>
                   await (if validStatus = Suspended \<and> u_role cu = Owner
                          then await (tenant_users_count tx
                                        (\<lambda>u. u_tenant_id u = u_tenant_id cu
                                              \<and> u_role u = Owner \<and> u_status u = Active))
                               (\<lambda>activeOwnerCount.
                                  if activeOwnerCount = 1
                                  then reject (TenantBusinessRuleError
                                         ''Cannot suspend the last active owner'')
                                  else resolve ())
                          else resolve ())
                   (\<lambda>_. tenant_users_update tx userId (\<lambda>u. u\<lparr>u_status := validStatus\<rparr>)))))"

definition deleteUser :: "string \<Rightarrow> tenant_user promise" where
  "deleteUser userId =
     transaction (\<lambda>tx.
       await (tenant_users_findUnique tx userId)
       (\<lambda>currentUser. case currentUser of
            None \<Rightarrow> reject (TenantUserNotFoundError ''User not found'')
          | Some cu \<Rightarrow>
              await (if u_role cu = Owner
                     then await (tenant_users_count tx
                                   (\<lambda>u. u_tenant_id u = u_tenant_id cu \<and> u_role u = Owner))
                          (\<lambda>ownerCount.
                             if ownerCount = 1
                             then reject (TenantBusinessRuleError
                                    ''Cannot delete the last owner'')
                             else resolve ())
                     else resolve ())
              (\<lambda>_. tenant_users_delete tx userId)))"

section \<open>Service layer: invitations\<close>

text \<open>
  \<^verbatim>\<open>services/tenant-user-service.ts\<close>, class \<^verbatim>\<open>TenantInvitationService\<close>. The random
  token, the reading of the clock (\<^verbatim>\<open>new Date()\<close>) and the generated row id are
  arguments. The expiry is the clock plus seven days.
\<close>

definition seven_days :: int where
  "seven_days = 7 * 24 * 60 * 60 * 1000"

definition createInvitation ::
  "zod \<Rightarrow> invitation_input \<Rightarrow> string \<Rightarrow> int \<Rightarrow> string \<Rightarrow> tenant_invitation promise" where
  "createInvitation z invitationData token now new_id =
     (case validateTenantInvitation z now invitationData token (now + seven_days) of
        Inl e \<Rightarrow> reject e
      | Inr validatedData \<Rightarrow>
          transaction (\<lambda>tx.
            await (tenant_invitations_findFirst tx
                     (\<lambda>v. i_tenant_id v = d_inv_tenantId validatedData
                           \<and> i_email v = d_inv_email validatedData \<and> i_status v = Pending))
            (\<lambda>existingInvitation. case existingInvitation of
                 Some _ \<Rightarrow>
                   reject (TenantBusinessRuleError ''User already has a pending invitation'')
               | None \<Rightarrow>
            await (tenant_users_findFirst tx
                     (\<lambda>u. u_tenant_id u = d_inv_tenantId validatedData
                           \<and> u_email u = d_inv_email validatedData))
            (\<lambda>existingMember. case existingMember of
                 Some _ \<Rightarrow>
                   reject (TenantBusinessRuleError ''User is already a member of this tenant'')
               | None \<Rightarrow>
            await (if d_inv_role validatedData = Owner
                   then await (tenant_users_findFirst tx
                                 (\<lambda>u. u_tenant_id u = d_inv_tenantId validatedData
                                       \<and> u_role u = Owner))
                        (\<lambda>existingOwner. case existingOwner of
                             Some _ \<Rightarrow>
                               reject (TenantBusinessRuleError ''Tenant already has an owner'')
                           | None \<Rightarrow> resolve ())
                   else resolve ())
            (\<lambda>_. tenant_invitations_create tx
                    \<lparr>i_id = new_id,
                     i_tenant_id = d_inv_tenantId validatedData,
                     i_email = d_inv_email validatedData,
                     i_role = d_inv_role validatedData,
                     i_invited_by = d_invitedBy validatedData,
                     i_token = d_token validatedData,
                     i_status = d_inv_status validatedData,
                     i_expires_at = d_expiresAt validatedData,
                     i_accepted_at = None\<rparr>)))))"

definition acceptInvitation :: "string \<Rightarrow> string \<Rightarrow> int \<Rightarrow> string \<Rightarrow> tenant_user promise" where
  "acceptInvitation invitationId clerkUserId now new_id =
     transaction (\<lambda>tx.
       await (tenant_invitations_findUnique tx invitationId)
       (\<lambda>found. case found of
            None \<Rightarrow> reject (TenantBusinessRuleError ''Invalid or expired invitation'')
          | Some invitation \<Rightarrow>
       if i_status invitation \<noteq> Pending
       then reject (TenantBusinessRuleError ''Invalid or expired invitation'')
       else
       if i_expires_at invitation < now
       then await (tenant_invitations_update tx invitationId (\<lambda>v. v\<lparr>i_status := Expired\<rparr>))
            (\<lambda>_. reject (TenantBusinessRuleError ''Invitation has expired''))
       else
       await (tenant_users_findFirst tx
                (\<lambda>u. u_tenant_id u = i_tenant_id invitation
                      \<and> u_clerk_user_id u = clerkUserId))
       (\<lambda>existingMember. case existingMember of
            Some _ \<Rightarrow>
              reject (TenantBusinessRuleError ''User is already a member of this tenant'')
          | None \<Rightarrow>
       await (if i_role invitation = Owner
              then await (tenant_users_findFirst tx
                            (\<lambda>u. u_tenant_id u = i_tenant_id invitation \<and> u_role u = Owner))
                   (\<lambda>existingOwner. case existingOwner of
                        Some _ \<Rightarrow>
                          reject (TenantBusinessRuleError ''Tenant already has an owner'')
                      | None \<Rightarrow> resolve ())
              else resolve ())
       (\<lambda>_.
       await (tenant_users_create tx
                \<lparr>u_id = new_id,
                 u_tenant_id = i_tenant_id invitation,
                 u_clerk_user_id = clerkUserId,
                 u_email = i_email invitation,
                 u_first_name = None,
                 u_last_name = None,
                 u_role = i_role invitation,
                 u_status = Active,
                 u_metadata = ''{}''\<rparr>)
       (\<lambda>user.
       await (tenant_invitations_update tx invitationId
                (\<lambda>v. v\<lparr>i_status := Accepted, i_accepted_at := Some now\<rparr>))
       (\<lambda>_. resolve user))))))"

definition revokeInvitation :: "string \<Rightarrow> tenant_invitation promise" where
  "revokeInvitation invitationId =
     transaction (\<lambda>tx.
       await (tenant_invitations_findUnique tx invitationId)
       (\<lambda>found. case found of
            None \<Rightarrow> reject (TenantNotFoundError ''Invitation not found'')
          | Some invitation \<Rightarrow>
              if i_status invitation \<noteq> Pending
              then reject (TenantBusinessRuleError ''Only pending invitations can be revoked'')
              else tenant_invitations_update tx invitationId (\<lambda>v. v\<lparr>i_status := Revoked\<rparr>)))"

section \<open>Service layer: tenants\<close>

text \<open>\<^verbatim>\<open>services/tenant-service.ts\<close>, class \<^verbatim>\<open>TenantService\<close>. The two generated row
  ids of \<^verbatim>\<open>createTenant\<close> are arguments.\<close>

definition createTenant ::
  "tenant_input \<Rightarrow> string \<Rightarrow> string \<Rightarrow> string \<Rightarrow> string \<Rightarrow> (tenant \<times> tenant_user) promise" where
  "createTenant tenantData ownerClerkUserId ownerEmail new_tenant_id new_user_id =
     (case validateTenant tenantData of
        Inl e \<Rightarrow> reject e
      | Inr validatedData \<Rightarrow>
          transaction (\<lambda>tx.
            await (tenants_findUnique_slug tx (d_slug validatedData))
            (\<lambda>existingTenant. case existingTenant of
                 Some _ \<Rightarrow> reject (TenantBusinessRuleError ''Tenant slug already exists'')
               | None \<Rightarrow>
            await (tenants_create tx
                     \<lparr>t_id = new_tenant_id,
                      t_slug = d_slug validatedData,
                      t_name = d_name validatedData,
                      t_settings = d_settings validatedData,
                      t_status = d_tenant_status validatedData\<rparr>)
            (\<lambda>tenant.
            await (tenant_users_create tx
                     \<lparr>u_id = new_user_id,
                      u_tenant_id = t_id tenant,
                      u_clerk_user_id = ownerClerkUserId,
                      u_email = ownerEmail,
                      u_first_name = None,
                      u_last_name = None,
                      u_role = Owner,
                      u_status = Active,
                      u_metadata = ''{}''\<rparr>)
            (\<lambda>ownerUser. resolve (tenant, ownerUser))))))"

definition getTenantBySlug :: "string \<Rightarrow> tenant promise" where
  "getTenantBySlug s =
     await (tenants_findUnique_slug ThisPrisma s)
     (\<lambda>found. case found of
          None \<Rightarrow> reject (TenantNotFoundError ''Tenant not found'')
        | Some tenant \<Rightarrow> resolve tenant)"

definition suspendTenant :: "string \<Rightarrow> tenant promise" where
  "suspendTenant tenant_id =
     transaction (\<lambda>tx.
       await (tenants_findUnique tx tenant_id)
       (\<lambda>existingTenant. case existingTenant of
            None \<Rightarrow> reject (TenantNotFoundError ''Tenant not found'')
          | Some t \<Rightarrow>
              if t_status t = Suspended
              then reject (TenantBusinessRuleError ''Tenant is already suspended'')
              else tenants_update_status tx tenant_id Suspended))"

definition activateTenant :: "string \<Rightarrow> tenant promise" where
  "activateTenant tenant_id =
     transaction (\<lambda>tx.
       await (tenants_findUnique tx tenant_id)
       (\<lambda>existingTenant. case existingTenant of
            None \<Rightarrow> reject (TenantNotFoundError ''Tenant not found'')
          | Some t \<Rightarrow>
              if t_status t = Active
              then reject (TenantBusinessRuleError ''Tenant is already active'')
              else tenants_update_status tx tenant_id Active))"

definition deleteTenant :: "string \<Rightarrow> tenant promise" where
  "deleteTenant tenant_id =
     transaction (\<lambda>tx.
       await (tenants_findUnique tx tenant_id)
       (\<lambda>existingTenant. case existingTenant of
            None \<Rightarrow> reject (TenantNotFoundError ''Tenant not found'')
          | Some _ \<Rightarrow>
              await (tenant_users_count tx (\<lambda>u. u_tenant_id u = tenant_id))
              (\<lambda>userCount.
                 if userCount > 0
                 then reject (TenantBusinessRuleError ''Cannot delete tenant with active users'')
                 else tenants_delete tx tenant_id)))"

section \<open>Session-scoped gateway\<close>

text \<open>
  \<^verbatim>\<open>prisma/client.ts\<close>, class \<^verbatim>\<open>TenantAwarePrismaClient\<close>.

  The statement \<^verbatim>\<open>SELECT set_config('app.current_tenant_id', v, is_local)\<close> acts on the
  setting as the running transaction sees it: the value the session holds, and the value
  bound for this transaction only, if any. With \<^verbatim>\<open>is_local\<close> it binds \<open>v\<close> for the
  transaction; without, it sets the session's value.
\<close>

record setting =
  session_value :: string
  local_value :: "string option"

definition set_config :: "string \<Rightarrow> bool \<Rightarrow> setting \<Rightarrow> setting" where
  "set_config v is_local s =
     (if is_local then s\<lparr>local_value := Some v\<rparr>
      else \<lparr>session_value = v, local_value = None\<rparr>)"

text \<open>
  \<^verbatim>\<open>this.$executeRaw\<close> sends one statement through the client, outside any
  \<^verbatim>\<open>$transaction\<close>: the statement runs in a transaction of its own, which starts with no
  local value and at whose end a local value is dropped. What stays is the session's
  value. The call rejects when the connection fails.
\<close>

definition executeRaw :: "(setting \<Rightarrow> setting) \<Rightarrow> unit promise" where
  "executeRaw statement c =
     (case faults c of
        Some e # rest \<Rightarrow> (Inl e, c\<lparr>faults := rest\<rparr>)
      | _ \<Rightarrow>
          (Inr (),
           c\<lparr>faults := tl (faults c),
             current_tenant_id :=
               session_value
                 (statement \<lparr>session_value = current_tenant_id c, local_value = None\<rparr>)\<rparr>))"

definition setTenantContext :: "string \<Rightarrow> client \<Rightarrow> client" where
  "setTenantContext tenant_id c = c\<lparr>tenantId := Some tenant_id\<rparr>"

text \<open>\<^verbatim>\<open>try { return await body } finally { await fin }\<close>: the final block runs on every
  exit of the body; the body's outcome stands unless the final block itself rejects.\<close>

definition try_finally :: "'a promise \<Rightarrow> unit promise \<Rightarrow> 'a promise" where
  "try_finally body fin c =
     (case body c of
        (r, c') \<Rightarrow> (case fin c' of (Inl e, c'') \<Rightarrow> (Inl e, c'') | (Inr _, c'') \<Rightarrow> (r, c'')))"

text \<open>Both statements of \<^verbatim>\<open>withTenantContext\<close> pass \<^verbatim>\<open>true\<close> for \<^verbatim>\<open>is_local\<close>. The
  first is awaited before the \<^verbatim>\<open>try\<close>: when it rejects, neither the callback nor the
  final block runs.\<close>

definition withTenantContext :: "string \<Rightarrow> 'a promise \<Rightarrow> 'a promise" where
  "withTenantContext tenant_id callback =
     await (executeRaw (set_config tenant_id True))
       (\<lambda>_. try_finally callback (executeRaw (set_config [] True)))"

definition executeWithTenantContext :: "'a promise \<Rightarrow> 'a promise" where
  "executeWithTenantContext callback c =
     (case tenantId c of
        None \<Rightarrow> reject (Error ''Tenant context not set. Call setTenantContext() first.'') c
      | Some tid \<Rightarrow>
          if tid = []
          then reject (Error ''Tenant context not set. Call setTenantContext() first.'') c
          else withTenantContext tid callback c)"

text \<open>
  The accessor \<^verbatim>\<open>tenantUsers\<close> starts with
  \<^verbatim>\<open>const originalMethods = super.tenant_users\<close>. A \<^verbatim>\<open>super\<close> property is looked up on
  the prototype of the parent class, not on the instance. The generated client, which is
  not part of the sources, provides its table accessors on the instance; its prototype
  has none, so the lookup gives \<^verbatim>\<open>undefined\<close>.
\<close>

definition super_tenant_users :: "handle option" where
  "super_tenant_users = None"

text \<open>
  Every method of the accessor runs the method of \<^verbatim>\<open>originalMethods\<close> inside
  \<^verbatim>\<open>executeWithTenantContext\<close>; \<^verbatim>\<open>create\<close> spreads the caller's \<^verbatim>\<open>data\<close> and then
  sets \<^verbatim>\<open>tenant_id\<close> from the field \<^verbatim>\<open>this.tenantId\<close>, read when the callback runs (a
  \<^verbatim>\<open>null\<close> there is refused by the column). Reading a method of \<^verbatim>\<open>undefined\<close> throws
  before the arguments of the call are built.
\<close>

definition tenantUsers_create :: "tenant_user \<Rightarrow> tenant_user promise" where
  "tenantUsers_create data =
     executeWithTenantContext (\<lambda>c.
       case super_tenant_users of
         None \<Rightarrow>
           reject (TypeError ''Cannot read properties of undefined (reading 'create')'') c
       | Some originalMethods \<Rightarrow>
           (case tenantId c of
              None \<Rightarrow> reject (PrismaClientKnownRequestError ''P2011'') c
            | Some tid \<Rightarrow> tenant_users_create originalMethods (data\<lparr>u_tenant_id := tid\<rparr>) c))"

section \<open>Tenant middleware\<close>

text \<open>\<^verbatim>\<open>middleware/tenant.ts\<close>. A request offers its headers, its query parameters and
  its path; a lookup of an absent name gives \<^verbatim>\<open>null\<close>.\<close>

record request =
  headers_get :: "string \<Rightarrow> string option"
  searchParams_get :: "string \<Rightarrow> string option"
  pathname :: string

datatype extract_source = Header | Subdomain | Query | Path

record TenantMiddlewareOptions =
  required :: "bool option"
  extractFrom :: "extract_source option"
  headerName :: "string option"
  fallbackTenantSlug :: "string option"

definition DEFAULT_OPTIONS :: TenantMiddlewareOptions where
  "DEFAULT_OPTIONS =
     \<lparr>required = Some True, extractFrom = Some Header,
      headerName = Some ''x-tenant-slug'', fallbackTenantSlug = Some ''default''\<rparr>"

text \<open>The object spread \<^verbatim>\<open>{ ...a, ...b }\<close>: a key present in \<open>b\<close> wins.\<close>

definition or_else :: "'a option \<Rightarrow> 'a option \<Rightarrow> 'a option" where
  "or_else b a = (case b of None \<Rightarrow> a | Some v \<Rightarrow> Some v)"

definition spread ::
  "TenantMiddlewareOptions \<Rightarrow> TenantMiddlewareOptions \<Rightarrow> TenantMiddlewareOptions" where
  "spread a b =
     \<lparr>required = or_else (required b) (required a),
      extractFrom = or_else (extractFrom b) (extractFrom a),
      headerName = or_else (headerName b) (headerName a),
      fallbackTenantSlug = or_else (fallbackTenantSlug b) (fallbackTenantSlug a)\<rparr>"

text \<open>\<^verbatim>\<open>s.split(sep)\<close> for a one-character separator.\<close>

fun split_str :: "char \<Rightarrow> string \<Rightarrow> string list" where
  "split_str sep [] = [[]]"
| "split_str sep (x # xs) =
     (if x = sep then [] # split_str sep xs
      else (case split_str sep xs of [] \<Rightarrow> [[x]] | p # ps \<Rightarrow> (x # p) # ps))"

text \<open>\<^verbatim>\<open>v || null\<close> on a string or \<^verbatim>\<open>null\<close>: the empty string is falsy.\<close>

definition or_null :: "string option \<Rightarrow> string option" where
  "or_null v = (case v of None \<Rightarrow> None | Some s \<Rightarrow> if s = [] then None else Some s)"

definition extractTenantSlug :: "request \<Rightarrow> TenantMiddlewareOptions \<Rightarrow> string option" where
  "extractTenantSlug req options =
     (let opts = spread DEFAULT_OPTIONS options in
      case extractFrom opts of
        Some Header \<Rightarrow>
          (case headerName opts of
             None \<Rightarrow> or_null (headers_get req ''undefined'')
           | Some h \<Rightarrow> or_null (headers_get req h))
      | Some Subdomain \<Rightarrow>
          (case or_null (headers_get req ''host'') of
             None \<Rightarrow> None
           | Some host \<Rightarrow>
               (case split_str CHR ''.'' host of
                  [] \<Rightarrow> None
                | subdomain # _ \<Rightarrow>
                    if subdomain \<noteq> ''www'' \<and> subdomain \<noteq> ''localhost''
                    then Some subdomain else None))
      | Some Query \<Rightarrow> or_null (searchParams_get req ''tenant'')
      | Some Path \<Rightarrow>
          (case split_str CHR ''/'' (pathname req) of
             _ # segment # _ \<Rightarrow> or_null (Some segment)
           | _ \<Rightarrow> None)
      | None \<Rightarrow> None)"

text \<open>The permission table of \<^verbatim>\<open>getRolePermissions\<close>, and the lookup
  \<^verbatim>\<open>permissions[role] || []\<close>.\<close>

definition permissions :: "(string \<times> string list) list" where
  "permissions =
     [(''admin'',
       [''tenant:read'', ''tenant:update'', ''tenant:delete'',
        ''user:read'', ''user:create'', ''user:update'', ''user:delete'',
        ''invitation:create'', ''invitation:delete'',
        ''settings:read'', ''settings:update'', ''audit:read'']),
      (''user'', [''tenant:read'', ''user:read'', ''settings:read'']),
      (''viewer'', [''tenant:read'', ''user:read''])]"

definition getRolePermissions :: "string \<Rightarrow> string list" where
  "getRolePermissions r = (case map_of permissions r of None \<Rightarrow> [] | Some ps \<Rightarrow> ps)"

text \<open>The text a role is stored as in the column \<^verbatim>\<open>role\<close>.\<close>

definition role_text :: "role \<Rightarrow> string" where
  "role_text r =
     (case r of Owner \<Rightarrow> ''owner'' | Admin \<Rightarrow> ''admin''
              | Member \<Rightarrow> ''member'' | Viewer \<Rightarrow> ''viewer'')"

record TenantContext =
  ctx_tenant :: tenant
  ctx_user :: tenant_user
  ctx_permissions :: "string list"

text \<open>The argument \<open>auth_userId\<close> is what the identity provider's \<^verbatim>\<open>auth()\<close> returns.\<close>

definition getTenantContext ::
  "request \<Rightarrow> string option \<Rightarrow> TenantMiddlewareOptions \<Rightarrow> TenantContext option promise" where
  "getTenantContext req auth_userId options =
     (let opts = spread DEFAULT_OPTIONS options;
          extracted = extractTenantSlug req opts;
          tenantSlug =
            (if or_null extracted = None \<and> required opts \<noteq> Some True
                \<and> or_null (fallbackTenantSlug opts) \<noteq> None
             then fallbackTenantSlug opts else extracted)
      in
      if or_null tenantSlug = None \<and> required opts = Some True
      then reject (Error ''Tenant context is required but not provided'')
      else case or_null tenantSlug of
        None \<Rightarrow> resolve None
      | Some s \<Rightarrow>
          await (tenants_findUnique_slug ThisPrisma s)
          (\<lambda>found. case found of
               None \<Rightarrow> reject (Error (''Tenant not found: '' @ s))
             | Some tenant \<Rightarrow>
                 (case or_null auth_userId of
                    None \<Rightarrow> reject (Error ''User authentication required'')
                  | Some userId \<Rightarrow>
                      await (tenant_users_findFirst ThisPrisma
                               (\<lambda>u. u_tenant_id u = t_id tenant \<and> u_clerk_user_id u = userId))
                      (\<lambda>tenantUser. case tenantUser of
                           None \<Rightarrow> reject (Error (''User not found in tenant: '' @ s))
                         | Some user \<Rightarrow>
                             resolve (Some
                               \<lparr>ctx_tenant = tenant, ctx_user = user,
                                ctx_permissions =
                                  getRolePermissions (role_text (u_role user))\<rparr>)))))"

definition validateTenantAccess :: "string \<Rightarrow> string \<Rightarrow> tenant_user option promise" where
  "validateTenantAccess tenant_id clerkUserId =
     tenant_users_findFirst ThisPrisma
       (\<lambda>u. u_tenant_id u = tenant_id \<and> u_clerk_user_id u = clerkUserId
             \<and> u_status u = Active)"

definition checkPermission :: "TenantContext \<Rightarrow> string \<Rightarrow> bool" where
  "checkPermission context permission = List.member (ctx_permissions context) permission"

section \<open>Vocabulary of the properties\<close>

text \<open>Counts of a tenant's memberships, as the services' \<^verbatim>\<open>count\<close> queries take them.\<close>

definition owner_count :: "string \<Rightarrow> store \<Rightarrow> nat" where
  "owner_count t s =
     length (filter (\<lambda>u. u_tenant_id u = t \<and> u_role u = Owner) (tenant_users_tbl s))"

definition active_owner_count :: "string \<Rightarrow> store \<Rightarrow> nat" where
  "active_owner_count t s =
     length (filter (\<lambda>u. u_tenant_id u = t \<and> u_role u = Owner \<and> u_status u = Active)
               (tenant_users_tbl s))"

definition other_admin_count :: "string \<Rightarrow> string \<Rightarrow> store \<Rightarrow> nat" where
  "other_admin_count t userId s =
     length (filter (\<lambda>u. u_tenant_id u = t \<and> u_role u = Admin \<and> u_id u \<noteq> userId)
               (tenant_users_tbl s))"

text \<open>Membership ids are keys, and no tenant has two owners.\<close>

definition single_owner :: "store \<Rightarrow> bool" where
  "single_owner s \<longleftrightarrow>
     distinct (map u_id (tenant_users_tbl s)) \<and> (\<forall>t. owner_count t s \<le> 1)"

text \<open>The row \<^verbatim>\<open>createUser\<close> inserts for a validated payload.\<close>

definition new_member :: "TenantUserData \<Rightarrow> string \<Rightarrow> tenant_user" where
  "new_member v nid =
     \<lparr>u_id = nid, u_tenant_id = d_tenantId v, u_clerk_user_id = d_clerkUserId v,
      u_email = d_email v, u_first_name = d_firstName v, u_last_name = d_lastName v,
      u_role = d_role v, u_status = d_status v, u_metadata = d_metadata v\<rparr>"

text \<open>Sequences of membership operations, each a request of its own: a rejected operation
  leaves the next one to run on the client as it stands.\<close>

datatype user_op =
    CreateUser user_input string
  | UpdateUserRole string string
  | UpdateUserStatus string string
  | DeleteUser string

fun run_op :: "zod \<Rightarrow> user_op \<Rightarrow> client \<Rightarrow> client" where
  "run_op z (CreateUser x nid) c = snd (createUser z x nid c)"
| "run_op z (UpdateUserRole i r) c = snd (updateUserRole i r c)"
| "run_op z (UpdateUserStatus i s) c = snd (updateUserStatus i s c)"
| "run_op z (DeleteUser i) c = snd (deleteUser i c)"

fun run_ops :: "zod \<Rightarrow> user_op list \<Rightarrow> client \<Rightarrow> client" where
  "run_ops z [] c = c"
| "run_ops z (op # ops) c = run_ops z ops (run_op z op c)"

subsection \<open>Traces\<close>

text \<open>The table accesses an operation adds to the trace.\<close>

definition accesses :: "'a promise \<Rightarrow> client \<Rightarrow> access list" where
  "accesses m c = drop (length (log c)) (log (snd (m c)))"

subsection \<open>Example data\<close>

text \<open>The tenant of the spec's scenarios, with its owner and an administrator.\<close>

definition acme :: tenant where
  "acme = \<lparr>t_id = ''t1'', t_slug = ''acme'', t_name = ''Acme Inc'', t_settings = ''{}'',
           t_status = Active\<rparr>"

definition ada :: tenant_user where
  "ada = \<lparr>u_id = ''u1'', u_tenant_id = ''t1'', u_clerk_user_id = ''ext_1'',
          u_email = ''a@acme.com'', u_first_name = None, u_last_name = None,
          u_role = Owner, u_status = Active, u_metadata = ''{}''\<rparr>"

definition bob :: tenant_user where
  "bob = \<lparr>u_id = ''u2'', u_tenant_id = ''t1'', u_clerk_user_id = ''ext_2'',
          u_email = ''b@acme.com'', u_first_name = None, u_last_name = None,
          u_role = Admin, u_status = Active, u_metadata = ''{}''\<rparr>"

definition client_of :: "store \<Rightarrow> client" where
  "client_of s =
     \<lparr>db = s, current_tenant_id = [], tenantId = None, log = [], faults = []\<rparr>"

definition acme_store :: store where
  "acme_store = \<lparr>tenants_tbl = [acme], tenant_users_tbl = [ada, bob],
                 tenant_invitations_tbl = []\<rparr>"


definition sole_store :: store where
  "sole_store = \<lparr>tenants_tbl = [acme], tenant_users_tbl = [ada], tenant_invitations_tbl = []\<rparr>"

text \<open>A validator whose format checks accept every string.\<close>

definition any_zod :: zod where
  "any_zod = \<lparr>z_uuid = (\<lambda>_. True), z_email = (\<lambda>_. True)\<rparr>"

text \<open>An invitation of the tenant that expired at time 1000, and a payload for a second
  tenant.\<close>

definition pending_invite :: tenant_invitation where
  "pending_invite =
     \<lparr>i_id = ''i1'', i_tenant_id = ''t1'', i_email = ''c@acme.com'', i_role = Member,
      i_invited_by = Some ''u1'', i_token = ''tok'', i_status = Pending,
      i_expires_at = 1000, i_accepted_at = None\<rparr>"

definition invited_store :: store where
  "invited_store = \<lparr>tenants_tbl = [acme], tenant_users_tbl = [ada],
                    tenant_invitations_tbl = [pending_invite]\<rparr>"

definition beta_input :: tenant_input where
  "beta_input = \<lparr>in_slug = ''beta'', in_name = ''Beta'', in_settings = None,
                 in_tenant_status = None\<rparr>"

text \<open>The empty store, the payload of the spec's round-trip scenario, a suspended
  administrator of the tenant, and a request that names the tenant in its header.\<close>

definition empty_store :: store where
  "empty_store = \<lparr>tenants_tbl = [], tenant_users_tbl = [], tenant_invitations_tbl = []\<rparr>"

definition acme_input :: tenant_input where
  "acme_input = \<lparr>in_slug = ''acme'', in_name = ''Acme Inc'', in_settings = None,
                 in_tenant_status = None\<rparr>"

definition cara :: tenant_user where
  "cara = \<lparr>u_id = ''u3'', u_tenant_id = ''t1'', u_clerk_user_id = ''ext_3'',
           u_email = ''c@acme.com'', u_first_name = None, u_last_name = None,
           u_role = Admin, u_status = Suspended, u_metadata = ''{}''\<rparr>"

definition cara_store :: store where
  "cara_store = \<lparr>tenants_tbl = [acme], tenant_users_tbl = [ada, cara],
                 tenant_invitations_tbl = []\<rparr>"

definition acme_request :: request where
  "acme_request =
     \<lparr>headers_get = (\<lambda>h. if h = ''x-tenant-slug'' then Some ''acme'' else None),
      searchParams_get = (\<lambda>_. None), pathname = ''/api/users''\<rparr>"

definition no_options :: TenantMiddlewareOptions where
  "no_options = \<lparr>required = None, extractFrom = None, headerName = None,
                 fallbackTenantSlug = None\<rparr>"



section \<open>Verified properties\<close>

lemmas promise_defs = resolve_def reject_def await_def touch_def transaction_def

lemmas prisma_defs =
  tenants_findUnique_slug_def tenants_findUnique_def tenants_create_def
  tenants_update_status_def tenants_delete_def
  tenant_users_findFirst_def tenant_users_findUnique_def tenant_users_count_def
  tenant_users_create_def tenant_users_update_def tenant_users_delete_def
  tenant_invitations_findFirst_def tenant_invitations_findUnique_def
  tenant_invitations_create_def tenant_invitations_update_def

lemmas example_defs = acme_def ada_def bob_def client_of_def acme_store_def

subsection \<open>Scope cleanup\<close>

lemmas gateway_defs =
  withTenantContext_def executeWithTenantContext_def try_finally_def executeRaw_def
  set_config_def

text \<open>A statement that binds the setting with \<^verbatim>\<open>is_local\<close>, sent outside a transaction,
  leaves the session's value as it was; so \<^verbatim>\<open>withTenantContext\<close> hands the callback a
  session in which the tenant is not bound.\<close>

lemma executeRaw_local_keeps_session:
  "current_tenant_id (snd (executeRaw (set_config v True) c)) = current_tenant_id c"
  by (simp add: executeRaw_def set_config_def split: list.splits option.splits)

lemma withTenantContext_scope_not_in_force:
  "faults c = [] \<Longrightarrow>
   accesses (withTenantContext tenant_id (tenant_users_findFirst ThisPrisma p)) c
     = [\<lparr>a_table = TenantUsers, a_handle = ThisPrisma, a_scope = current_tenant_id c\<rparr>]"
  by (simp add: accesses_def gateway_defs promise_defs prisma_defs)

text \<open>With a callback that leaves the session's value alone, the session holds after
  \<^verbatim>\<open>withTenantContext\<close> what it held before, so no tenant where there was none. When
  the first statement rejects, the callback is not run.\<close>

lemma withTenantContext_keeps_session:
  assumes "\<And>c'. current_tenant_id (snd (callback c')) = current_tenant_id c'"
  shows "current_tenant_id (snd (withTenantContext tenant_id callback c)) = current_tenant_id c"
proof -
  obtain r1 c1 where 1: "executeRaw (set_config tenant_id True) c = (r1, c1)"
    by (cases "executeRaw (set_config tenant_id True) c")
  then have s1: "current_tenant_id c1 = current_tenant_id c"
    using executeRaw_local_keeps_session[of tenant_id c] by simp
  obtain r2 c2 where 2: "callback c1 = (r2, c2)" by (cases "callback c1")
  then have s2: "current_tenant_id c2 = current_tenant_id c1"
    using assms[of c1] by simp
  have s3: "current_tenant_id (snd (executeRaw (set_config [] True) c2)) = current_tenant_id c2"
    by (rule executeRaw_local_keeps_session)
  show ?thesis
    using 1 2 s1 s2 s3
    by (cases r1) (auto simp: withTenantContext_def await_def try_finally_def
                         split: prod.splits sum.splits)
qed

lemma withTenantContext_first_statement_rejects:
  "faults c = Some e # rest \<Longrightarrow>
   withTenantContext tenant_id callback c = (Inl e, c\<lparr>faults := rest\<rparr>)"
  by (simp add: withTenantContext_def executeRaw_def await_def)

text \<open>
  Claim C2. The claim says that after \<^verbatim>\<open>withTenantContext\<close> has run, whether the
  callback resolved or rejected, the session setting \<^verbatim>\<open>app.current_tenant_id\<close> has been
  reset to the empty string and the next unscoped query sees no residue. The final
  statement binds the empty string for its own transaction only, so it resets nothing the
  session holds: with a callback that sets the session's value to \<open>t9\<close>, resolving or
  rejecting afterwards, \<^verbatim>\<open>withTenantContext\<close> returns the callback's outcome, the session
  still holds \<open>t9\<close>, and the next query through the unscoped accessor runs under
  \<open>t9\<close>.
\<close>

theorem withTenantContext_leaves_session_value:
  "fst (withTenantContext ''t1'' (executeRaw (set_config ''t9'' False)) (client_of acme_store))
     = Inr ()
   \<and> current_tenant_id
       (snd (withTenantContext ''t1'' (executeRaw (set_config ''t9'' False))
               (client_of acme_store))) = ''t9''
   \<and> accesses (tenant_users_findFirst ThisPrisma (\<lambda>u. True))
       (snd (withTenantContext ''t1'' (executeRaw (set_config ''t9'' False))
               (client_of acme_store)))
     = [\<lparr>a_table = TenantUsers, a_handle = ThisPrisma, a_scope = ''t9''\<rparr>]
   \<and> fst (withTenantContext ''t1''
            (await (executeRaw (set_config ''t9'' False))
               (\<lambda>_. reject (Error ''callback failed'') :: unit promise))
            (client_of acme_store))
     = Inl (Error ''callback failed'')
   \<and> current_tenant_id
       (snd (withTenantContext ''t1''
               (await (executeRaw (set_config ''t9'' False))
                  (\<lambda>_. reject (Error ''callback failed'') :: unit promise))
               (client_of acme_store))) = ''t9''"
  by (simp add: accesses_def gateway_defs promise_defs prisma_defs client_of_def)

subsection \<open>The permission table\<close>

text \<open>
  Claim C4. The claim asks for a defined permission list for each of the roles owner, admin,
  member and viewer, with the full set for an owner. The table of \<^verbatim>\<open>getRolePermissions\<close>
  has the keys \<^verbatim>\<open>admin\<close>, \<^verbatim>\<open>user\<close> and \<^verbatim>\<open>viewer\<close>: for the roles owner and member the
  lookup finds nothing and the permission set is empty, while admin and viewer have theirs.
\<close>

theorem getRolePermissions_owner_member_empty:
  "getRolePermissions (role_text Owner) = []
   \<and> getRolePermissions (role_text Member) = []
   \<and> getRolePermissions (role_text Admin) \<noteq> []
   \<and> getRolePermissions (role_text Viewer) = [''tenant:read'', ''user:read'']"
  by (simp add: getRolePermissions_def role_text_def permissions_def)

subsection \<open>Suspending and activating a tenant\<close>



subsection \<open>Effect of the membership operations on the store\<close>

lemma deleteUser_store:
  "db (snd (deleteUser i c)) =
     (case find (\<lambda>u. u_id u = i) (tenant_users_tbl (db c)) of
        None \<Rightarrow> db c
      | Some cu \<Rightarrow>
          if u_role cu = Owner \<and> owner_count (u_tenant_id cu) (db c) = 1 then db c
          else if list_ex (\<lambda>v. i_invited_by v = Some i) (tenant_invitations_tbl (db c))
          then db c
          else (db c)\<lparr>tenant_users_tbl := filter (\<lambda>x. u_id x \<noteq> i) (tenant_users_tbl (db c))\<rparr>)"
  by (simp add: deleteUser_def promise_defs prisma_defs owner_count_def split: option.splits)

lemma updateUserStatus_store:
  "db (snd (updateUserStatus i s c)) =
     (case TenantStatusEnum s of None \<Rightarrow> db c | Some st \<Rightarrow>
      (case find (\<lambda>u. u_id u = i) (tenant_users_tbl (db c)) of
        None \<Rightarrow> db c
      | Some cu \<Rightarrow>
          if st = Suspended \<and> u_role cu = Owner \<and> active_owner_count (u_tenant_id cu) (db c) = 1
          then db c
          else (db c)\<lparr>tenant_users_tbl :=
                 map (\<lambda>x. if u_id x = i then x\<lparr>u_status := st\<rparr> else x) (tenant_users_tbl (db c))\<rparr>))"
  by (simp add: updateUserStatus_def validateTenantUserStatus_def promise_defs prisma_defs
        active_owner_count_def split: option.splits)

lemma updateUserRole_store:
  "db (snd (updateUserRole i r c)) =
     (case TenantRoleEnum r of None \<Rightarrow> db c | Some nr \<Rightarrow>
      (case find (\<lambda>u. u_id u = i) (tenant_users_tbl (db c)) of
        None \<Rightarrow> db c
      | Some cu \<Rightarrow>
          if nr = Owner \<and> find (\<lambda>u. u_tenant_id u = u_tenant_id cu \<and> u_role u = Owner \<and> u_id u \<noteq> i)
                 (tenant_users_tbl (db c)) \<noteq> None
          then db c
          else if nr \<noteq> Owner \<and> u_role cu = Owner \<and> other_admin_count (u_tenant_id cu) i (db c) = 0
          then db c
          else (db c)\<lparr>tenant_users_tbl :=
                 map (\<lambda>x. if u_id x = i then x\<lparr>u_role := nr\<rparr> else x) (tenant_users_tbl (db c))\<rparr>))"
  by (simp add: updateUserRole_def validateTenantUserRole_def enforceOwnershipRules_def
        promise_defs prisma_defs other_admin_count_def
        split: option.splits)

lemma createUser_store:
  "db (snd (createUser z x nid c)) =
     (case validateTenantUser z x of Inl e \<Rightarrow> db c | Inr v \<Rightarrow>
        if (d_role v = Owner \<and>
              find (\<lambda>u. u_tenant_id u = d_tenantId v \<and> u_role u = Owner) (tenant_users_tbl (db c)) \<noteq> None)
           \<or> find (\<lambda>u. u_tenant_id u = d_tenantId v \<and> u_clerk_user_id u = d_clerkUserId v)
                (tenant_users_tbl (db c)) \<noteq> None
           \<or> find (\<lambda>u. u_tenant_id u = d_tenantId v \<and> u_email u = d_email v)
                (tenant_users_tbl (db c)) \<noteq> None
           \<or> list_ex (tenant_users_conflict (new_member v nid)) (tenant_users_tbl (db c))
        then db c
        else if list_ex (\<lambda>t. t_id t = d_tenantId v) (tenants_tbl (db c))
        then (db c)\<lparr>tenant_users_tbl := tenant_users_tbl (db c) @ [new_member v nid]\<rparr>
        else db c)"
  by (simp add: createUser_def enforceBusinessRules_def new_member_def
        promise_defs prisma_defs split: option.splits sum.splits)

lemma find_distinct:
  "distinct (map f xs) \<Longrightarrow> find (\<lambda>x. f x = i) xs = Some u \<Longrightarrow> x \<in> set xs \<Longrightarrow> f x = i \<Longrightarrow> x = u"
proof (induction xs)
  case Nil
  then show ?case by simp
next
  case (Cons a xs)
  then show ?case by (cases "f a = i") (auto simp: image_iff)
qed

lemma filter_le1D:
  "length (filter P xs) \<le> 1 \<Longrightarrow> x \<in> set xs \<Longrightarrow> y \<in> set xs \<Longrightarrow> P x \<Longrightarrow> P y \<Longrightarrow> x = y"
proof (induction xs)
  case Nil
  then show ?case by simp
next
  case (Cons a xs)
  show ?case
  proof (cases "P a")
    case True
    with Cons.prems have "filter P xs = []" by simp
    then have "\<forall>z\<in>set xs. \<not> P z" by (simp add: filter_empty_conv)
    with Cons.prems True show ?thesis by auto
  next
    case False
    with Cons show ?thesis by auto
  qed
qed

lemma filter_le1I:
  "distinct xs \<Longrightarrow> (\<And>x y. x \<in> set xs \<Longrightarrow> y \<in> set xs \<Longrightarrow> P x \<Longrightarrow> P y \<Longrightarrow> x = y) \<Longrightarrow>
   length (filter P xs) \<le> 1"
proof (induction xs)
  case Nil
  then show ?case by simp
next
  case (Cons a xs)
  show ?case
  proof (cases "P a")
    case True
    have "\<not> P z" if "z \<in> set xs" for z
      using Cons.prems(1) Cons.prems(2)[of a z] True that by auto
    then have "filter P xs = []" by (simp add: filter_empty_conv)
    with True show ?thesis by simp
  next
    case False
    have "length (filter P xs) \<le> 1"
      using Cons.prems by (intro Cons.IH) auto
    with False show ?thesis by simp
  qed
qed

lemma filter_mono_length:
  "(\<And>x. x \<in> set xs \<Longrightarrow> Q x \<Longrightarrow> P x) \<Longrightarrow> length (filter Q xs) \<le> length (filter P xs)"
proof (induction xs)
  case Nil
  then show ?case by simp
next
  case (Cons a xs)
  then show ?case by (auto simp: le_SucI)
qed

lemma deleteUser_single_owner:
  assumes "single_owner (db c)"
  shows "single_owner (db (snd (deleteUser i c)))"
proof -
  let ?xs = "tenant_users_tbl (db c)"
  let ?s' = "(db c)\<lparr>tenant_users_tbl := filter (\<lambda>x. u_id x \<noteq> i) ?xs\<rparr>"
  have d: "distinct (map u_id (filter (\<lambda>x. u_id x \<noteq> i) ?xs))"
    using assms by (simp add: single_owner_def distinct_map_filter)
  have "owner_count t ?s' \<le> owner_count t (db c)" for t
    by (simp add: owner_count_def) (rule filter_mono_length, simp)
  moreover have "owner_count t (db c) \<le> 1" for t
    using assms by (simp add: single_owner_def)
  ultimately have "owner_count t ?s' \<le> 1" for t
    using le_trans by blast
  with d assms show ?thesis
    by (simp add: deleteUser_store single_owner_def split: option.splits)
qed

lemma updateUserStatus_single_owner:
  assumes "single_owner (db c)"
  shows "single_owner (db (snd (updateUserStatus i s c)))"
proof -
  have m: "u_id \<circ> (\<lambda>x. if u_id x = i then x\<lparr>u_status := st\<rparr> else x) = u_id" for st
    by (auto simp: fun_eq_iff)
  have f: "(\<lambda>u. u_tenant_id u = t \<and> u_role u = Owner)
             \<circ> (\<lambda>x. if u_id x = i then x\<lparr>u_status := st\<rparr> else x)
           = (\<lambda>u. u_tenant_id u = t \<and> u_role u = Owner)" for t st
    by (auto simp: fun_eq_iff)
  show ?thesis
    using assms
    by (simp add: updateUserStatus_store single_owner_def owner_count_def m f
          split: option.splits)
qed

lemma promote_le1:
  assumes d: "distinct (map u_id xs)"
    and le: "\<And>t. length (filter (\<lambda>u. u_tenant_id u = t \<and> u_role u = Owner) xs) \<le> 1"
    and cu: "find (\<lambda>u. u_id u = i) xs = Some cu"
    and no: "find (\<lambda>u. u_tenant_id u = u_tenant_id cu \<and> u_role u = Owner \<and> u_id u \<noteq> i) xs = None"
  shows "length (filter (\<lambda>u. u_tenant_id u = t \<and> (u_id u = i \<or> u_role u = Owner)) xs) \<le> 1"
proof (rule filter_le1I)
  show "distinct xs" using d by (simp add: distinct_map)
next
  fix x y
  assume x: "x \<in> set xs" and y: "y \<in> set xs"
    and px: "u_tenant_id x = t \<and> (u_id x = i \<or> u_role x = Owner)"
    and py: "u_tenant_id y = t \<and> (u_id y = i \<or> u_role y = Owner)"
  have other: "\<not> (u_tenant_id z = u_tenant_id cu \<and> u_role z = Owner \<and> u_id z \<noteq> i)"
    if "z \<in> set xs" for z
    using no that by (auto simp: find_None_iff)
  have is_cu: "z = cu" if "z \<in> set xs" "u_id z = i" for z
    using find_distinct[OF d cu that] .
  consider "u_id x = i" "u_id y = i" | "u_id x = i" "u_id y \<noteq> i"
    | "u_id x \<noteq> i" "u_id y = i" | "u_id x \<noteq> i" "u_id y \<noteq> i"
    by blast
  then show "x = y"
  proof cases
    case 1
    then show ?thesis using is_cu x y by blast
  next
    case 2
    then have "x = cu" using is_cu x by blast
    with 2 px py other[OF y] show ?thesis by auto
  next
    case 3
    then have "y = cu" using is_cu y by blast
    with 3 px py other[OF x] show ?thesis by auto
  next
    case 4
    with px py have "u_tenant_id x = t \<and> u_role x = Owner" "u_tenant_id y = t \<and> u_role y = Owner"
      by auto
    then show ?thesis using filter_le1D[OF le x y] by blast
  qed
qed

lemma updateUserRole_single_owner:
  assumes "single_owner (db c)"
  shows "single_owner (db (snd (updateUserRole i r c)))"
proof -
  let ?xs = "tenant_users_tbl (db c)"
  have d: "distinct (map u_id ?xs)"
    and le: "\<And>t. length (filter (\<lambda>u. u_tenant_id u = t \<and> u_role u = Owner) ?xs) \<le> 1"
    using assms by (simp_all add: single_owner_def owner_count_def)
  have m: "u_id \<circ> (\<lambda>x. if u_id x = i then x\<lparr>u_role := nr\<rparr> else x) = u_id" for nr
    by (auto simp: fun_eq_iff)
  have up: "(\<lambda>u. u_tenant_id u = t \<and> u_role u = Owner)
              \<circ> (\<lambda>x. if u_id x = i then x\<lparr>u_role := Owner\<rparr> else x)
            = (\<lambda>u. u_tenant_id u = t \<and> (u_id u = i \<or> u_role u = Owner))" for t
    by (auto simp: fun_eq_iff)
  have down: "length (filter ((\<lambda>u. u_tenant_id u = t \<and> u_role u = Owner)
              \<circ> (\<lambda>x. if u_id x = i then x\<lparr>u_role := nr\<rparr> else x)) ?xs) \<le> 1"
    if "nr \<noteq> Owner" for t nr
  proof -
    have "length (filter ((\<lambda>u. u_tenant_id u = t \<and> u_role u = Owner)
              \<circ> (\<lambda>x. if u_id x = i then x\<lparr>u_role := nr\<rparr> else x)) ?xs)
          \<le> length (filter (\<lambda>u. u_tenant_id u = t \<and> u_role u = Owner) ?xs)"
      using that by (intro filter_mono_length) (auto split: if_splits)
    with le[of t] show ?thesis by simp
  qed
  show ?thesis
  proof (cases "TenantRoleEnum r")
    case None
    with assms show ?thesis by (simp add: updateUserRole_store)
  next
    case (Some nr)
    show ?thesis
    proof (cases "find (\<lambda>u. u_id u = i) ?xs")
      case None
      with Some assms show ?thesis by (simp add: updateUserRole_store)
    next
      case cu: (Some cu)
      show ?thesis
      proof (cases "nr = Owner")
        case True
        show ?thesis
        proof (cases "find (\<lambda>u. u_tenant_id u = u_tenant_id cu \<and> u_role u = Owner \<and> u_id u \<noteq> i) ?xs")
          case None
          have "length (filter (\<lambda>u. u_tenant_id u = t \<and> (u_id u = i \<or> u_role u = Owner)) ?xs) \<le> 1"
            for t using promote_le1[OF d le cu None] .
          with Some cu True None d show ?thesis
            by (simp add: updateUserRole_store single_owner_def owner_count_def m up)
        next
          case (Some a)
          with \<open>TenantRoleEnum r = Some nr\<close> cu True assms show ?thesis
            by (simp add: updateUserRole_store)
        qed
      next
        case False
        with Some cu d assms down[OF False] show ?thesis
          by (simp add: updateUserRole_store single_owner_def owner_count_def m)
      qed
    qed
  qed
qed

lemma createUser_single_owner:
  assumes "single_owner (db c)"
  shows "single_owner (db (snd (createUser z x nid c)))"
proof (cases "validateTenantUser z x")
  case (Inl e)
  with assms show ?thesis by (simp add: createUser_store)
next
  case (Inr v)
  let ?xs = "tenant_users_tbl (db c)"
  have none: "find (\<lambda>u. u_tenant_id u = t \<and> u_role u = Owner) ?xs = None \<Longrightarrow>
              filter (\<lambda>u. u_tenant_id u = t \<and> u_role u = Owner) ?xs = []" for t
    by (auto simp: find_None_iff filter_empty_conv)
  from assms Inr show ?thesis
    by (auto simp add: createUser_store single_owner_def owner_count_def new_member_def
          tenant_users_conflict_def list_ex_iff none)
qed

lemma run_op_single_owner: "single_owner (db c) \<Longrightarrow> single_owner (db (run_op z op c))"
  by (cases op)
    (simp_all add: createUser_single_owner updateUserRole_single_owner
       updateUserStatus_single_owner deleteUser_single_owner)

lemma run_ops_single_owner: "single_owner (db c) \<Longrightarrow> single_owner (db (run_ops z ops c))"
  by (induction ops arbitrary: c) (simp_all add: run_op_single_owner)

lemma count_update:
  "distinct (map f xs) \<Longrightarrow> find (\<lambda>x. f x = i) xs = Some cu \<Longrightarrow>
   length (filter P (map (\<lambda>x. if f x = i then h x else x) xs)) + (if P cu then 1 else 0)
     = length (filter P xs) + (if P (h cu) then 1 else 0)"
proof (induction xs)
  case Nil
  then show ?case by simp
next
  case (Cons a xs)
  show ?case
  proof (cases "f a = i")
    case True
    with Cons.prems have "a = cu" and "\<forall>x\<in>set xs. f x \<noteq> i" by (auto simp: image_iff)
    then have "map (\<lambda>x. if f x = i then h x else x) xs = xs"
      by (simp add: map_idI)
    with True \<open>a = cu\<close> show ?thesis by simp
  next
    case False
    with Cons show ?thesis by simp
  qed
qed

lemma count_delete:
  "distinct (map f xs) \<Longrightarrow> find (\<lambda>x. f x = i) xs = Some cu \<Longrightarrow>
   length (filter P (filter (\<lambda>x. f x \<noteq> i) xs)) + (if P cu then 1 else 0)
     = length (filter P xs)"
proof (induction xs)
  case Nil
  then show ?case by simp
next
  case (Cons a xs)
  show ?case
  proof (cases "f a = i")
    case True
    with Cons.prems have "a = cu" and "\<forall>x\<in>set xs. f x \<noteq> i" by (auto simp: image_iff)
    then have "filter (\<lambda>x. f x \<noteq> i) xs = xs"
      by simp
    with True \<open>a = cu\<close> show ?thesis by simp
  next
    case False
    with Cons show ?thesis by simp
  qed
qed

subsection \<open>The single-owner rule\<close>

lemma deleteUser_sole_owner_fails:
  "find (\<lambda>u. u_id u = i) (tenant_users_tbl (db c)) = Some cu \<Longrightarrow> u_role cu = Owner \<Longrightarrow>
   owner_count (u_tenant_id cu) (db c) = 1 \<Longrightarrow>
   fst (deleteUser i c) = Inl (TenantBusinessRuleError ''Cannot delete the last owner'')
   \<and> db (snd (deleteUser i c)) = db c"
  by (simp add: deleteUser_def promise_defs prisma_defs owner_count_def)

lemma updateUserRole_demote_fails:
  "find (\<lambda>u. u_id u = i) (tenant_users_tbl (db c)) = Some cu \<Longrightarrow> u_role cu = Owner \<Longrightarrow>
   TenantRoleEnum r = Some nr \<Longrightarrow> nr \<noteq> Owner \<Longrightarrow>
   other_admin_count (u_tenant_id cu) i (db c) = 0 \<Longrightarrow>
   fst (updateUserRole i r c)
     = Inl (TenantBusinessRuleError
         ''Cannot remove owner role - tenant must have at least one admin'')
   \<and> db (snd (updateUserRole i r c)) = db c"
  by (simp add: updateUserRole_def validateTenantUserRole_def enforceOwnershipRules_def
        promise_defs prisma_defs other_admin_count_def)

lemma updateUserStatus_suspend_fails:
  "find (\<lambda>u. u_id u = i) (tenant_users_tbl (db c)) = Some cu \<Longrightarrow> u_role cu = Owner \<Longrightarrow>
   active_owner_count (u_tenant_id cu) (db c) = 1 \<Longrightarrow>
   fst (updateUserStatus i ''suspended'' c)
     = Inl (TenantBusinessRuleError ''Cannot suspend the last active owner'')
   \<and> db (snd (updateUserStatus i ''suspended'' c)) = db c"
  by (simp add: updateUserStatus_def validateTenantUserStatus_def TenantStatusEnum_def
        promise_defs prisma_defs active_owner_count_def)

lemma createUser_count: "owner_count t (db c) \<le> owner_count t (db (snd (createUser z x nid c)))"
  by (simp add: createUser_store owner_count_def split: sum.splits)

lemma updateUserStatus_count:
  "owner_count t (db (snd (updateUserStatus i s c))) = owner_count t (db c)"
proof -
  have f: "(\<lambda>u. u_tenant_id u = t \<and> u_role u = Owner)
             \<circ> (\<lambda>x. if u_id x = i then x\<lparr>u_status := st\<rparr> else x)
           = (\<lambda>u. u_tenant_id u = t \<and> u_role u = Owner)" for st
    by (auto simp: fun_eq_iff)
  show ?thesis
    by (simp add: updateUserStatus_store owner_count_def f split: option.splits)
qed

lemma deleteUser_count:
  assumes "single_owner (db c)"
  shows "owner_count t (db (snd (deleteUser i c))) = owner_count t (db c)"
proof (cases "find (\<lambda>u. u_id u = i) (tenant_users_tbl (db c))")
  case None
  then show ?thesis by (simp add: deleteUser_store)
next
  case (Some cu)
  let ?xs = "tenant_users_tbl (db c)"
  have d: "distinct (map u_id ?xs)" using assms by (simp add: single_owner_def)
  have cu_in: "cu \<in> set ?xs" using Some by (auto simp: find_Some_iff)
  note cnt = count_delete[OF d Some, of "\<lambda>u. u_tenant_id u = t \<and> u_role u = Owner"]
  show ?thesis
  proof (cases "u_role cu = Owner")
    case True
    have "filter (\<lambda>u. u_tenant_id u = u_tenant_id cu \<and> u_role u = Owner) ?xs \<noteq> []"
      using cu_in True by (auto simp: filter_empty_conv)
    then have "owner_count (u_tenant_id cu) (db c) \<noteq> 0"
      by (simp add: owner_count_def)
    moreover have "owner_count (u_tenant_id cu) (db c) \<le> 1"
      using assms by (simp add: single_owner_def)
    ultimately have "owner_count (u_tenant_id cu) (db c) = 1" by linarith
    with Some True show ?thesis by (simp add: deleteUser_store)
  next
    case False
    with Some cnt show ?thesis by (simp add: deleteUser_store owner_count_def)
  qed
qed

lemma updateUserRole_count:
  assumes d: "distinct (map u_id (tenant_users_tbl (db c)))"
    and cu: "find (\<lambda>u. u_id u = i) (tenant_users_tbl (db c)) = Some cu"
    and nr: "TenantRoleEnum r = Some nr"
  shows "db (snd (updateUserRole i r c)) = db c
         \<or> (\<not> (nr \<noteq> Owner \<and> u_role cu = Owner \<and> other_admin_count (u_tenant_id cu) i (db c) = 0)
            \<and> owner_count t (db (snd (updateUserRole i r c)))
                + (if u_tenant_id cu = t \<and> u_role cu = Owner then 1 else 0)
              = owner_count t (db c) + (if u_tenant_id cu = t \<and> nr = Owner then 1 else 0))"
  using count_update[OF d cu, of "\<lambda>u. u_tenant_id u = t \<and> u_role u = Owner" "\<lambda>x. x\<lparr>u_role := nr\<rparr>"]
    cu nr
  by (simp add: updateUserRole_store owner_count_def)

lemma only_demotion_removes_owner:
  assumes so: "single_owner (db c)"
    and before: "owner_count t (db c) = 1"
    and after: "owner_count t (db (run_op z op c)) = 0"
  shows "\<exists>i r nr cu. op = UpdateUserRole i r \<and> TenantRoleEnum r = Some nr \<and> nr \<noteq> Owner
           \<and> find (\<lambda>u. u_id u = i) (tenant_users_tbl (db c)) = Some cu
           \<and> u_role cu = Owner \<and> u_tenant_id cu = t
           \<and> 0 < other_admin_count t i (db c)"
proof (cases op)
  case (CreateUser x nid)
  with before after createUser_count[of t c z x nid] show ?thesis by simp
next
  case (UpdateUserStatus i s)
  with before after show ?thesis by (simp add: updateUserStatus_count)
next
  case (DeleteUser i)
  with before after so show ?thesis by (simp add: deleteUser_count)
next
  case (UpdateUserRole i r)
  have d: "distinct (map u_id (tenant_users_tbl (db c)))"
    using so by (simp add: single_owner_def)
  from UpdateUserRole before after have changed: "db (snd (updateUserRole i r c)) \<noteq> db c"
    by auto
  then obtain nr where nr: "TenantRoleEnum r = Some nr"
    by (cases "TenantRoleEnum r") (simp_all add: updateUserRole_store)
  from changed nr obtain cu where cu: "find (\<lambda>u. u_id u = i) (tenant_users_tbl (db c)) = Some cu"
    by (cases "find (\<lambda>u. u_id u = i) (tenant_users_tbl (db c))")
       (simp_all add: updateUserRole_store)
  from updateUserRole_count[OF d cu nr, of t] changed
  have guard: "\<not> (nr \<noteq> Owner \<and> u_role cu = Owner \<and> other_admin_count (u_tenant_id cu) i (db c) = 0)"
    and cnt: "owner_count t (db (snd (updateUserRole i r c)))
                + (if u_tenant_id cu = t \<and> u_role cu = Owner then 1 else 0)
              = owner_count t (db c) + (if u_tenant_id cu = t \<and> nr = Owner then 1 else (0::nat))"
    by blast+
  from cnt before after UpdateUserRole
  have "u_tenant_id cu = t" "u_role cu = Owner" "nr \<noteq> Owner"
    by (auto split: if_splits)
  with guard have "0 < other_admin_count t i (db c)" by simp
  with UpdateUserRole nr cu \<open>u_tenant_id cu = t\<close> \<open>u_role cu = Owner\<close> \<open>nr \<noteq> Owner\<close>
  show ?thesis by blast
qed

lemmas user_service_defs =
  createUser_def enforceBusinessRules_def updateUserRole_def enforceOwnershipRules_def
  updateUserStatus_def deleteUser_def validateTenantUser_def validateTenantUserRole_def
  validateTenantUserStatus_def TenantRoleEnum_def TenantStatusEnum_def with_default_def

text \<open>
  Claim C1, as amended. From a store in which membership ids are keys and no tenant has two
  owners, every sequence of \<^verbatim>\<open>createUser\<close>, \<^verbatim>\<open>updateUserRole\<close>,
  \<^verbatim>\<open>updateUserStatus\<close> and \<^verbatim>\<open>deleteUser\<close> leaves every tenant with at most one
  owner. For a membership that is an owner: \<^verbatim>\<open>deleteUser\<close> rejects with a business-rule
  error when it is the tenant's only owner, \<^verbatim>\<open>updateUserRole\<close> to another role rejects
  when the tenant has no other administrator, and \<^verbatim>\<open>updateUserStatus\<close> to suspended
  rejects when it is the only active owner; each leaves the store unchanged. The one
  operation that takes a tenant's owner count from 1 back to 0 is \<^verbatim>\<open>updateUserRole\<close>
  demoting the owner while another administrator exists in the tenant.
\<close>

theorem owner_count_invariant_and_guards:
  "single_owner (db c) \<Longrightarrow>
     (\<forall>t. owner_count t (db (run_ops z ops c)) \<le> 1)
   \<and> (\<forall>i cu. find (\<lambda>u. u_id u = i) (tenant_users_tbl (db c)) = Some cu \<and> u_role cu = Owner \<longrightarrow>
        (owner_count (u_tenant_id cu) (db c) = 1 \<longrightarrow>
           fst (deleteUser i c) = Inl (TenantBusinessRuleError ''Cannot delete the last owner'')
           \<and> db (snd (deleteUser i c)) = db c)
      \<and> (\<forall>r nr. TenantRoleEnum r = Some nr \<and> nr \<noteq> Owner
                  \<and> other_admin_count (u_tenant_id cu) i (db c) = 0 \<longrightarrow>
           fst (updateUserRole i r c)
             = Inl (TenantBusinessRuleError
                 ''Cannot remove owner role - tenant must have at least one admin'')
           \<and> db (snd (updateUserRole i r c)) = db c)
      \<and> (active_owner_count (u_tenant_id cu) (db c) = 1 \<longrightarrow>
           fst (updateUserStatus i ''suspended'' c)
             = Inl (TenantBusinessRuleError ''Cannot suspend the last active owner'')
           \<and> db (snd (updateUserStatus i ''suspended'' c)) = db c))
   \<and> (\<forall>t op. owner_count t (db c) = 1 \<and> owner_count t (db (run_op z op c)) = 0 \<longrightarrow>
        (\<exists>i r nr cu. op = UpdateUserRole i r \<and> TenantRoleEnum r = Some nr \<and> nr \<noteq> Owner
           \<and> find (\<lambda>u. u_id u = i) (tenant_users_tbl (db c)) = Some cu
           \<and> u_role cu = Owner \<and> u_tenant_id cu = t
           \<and> 0 < other_admin_count t i (db c)))"
proof (intro conjI allI impI)
  fix t
  assume "single_owner (db c)"
  then show "owner_count t (db (run_ops z ops c)) \<le> 1"
    using run_ops_single_owner[of c z ops] by (simp add: single_owner_def)
next
  fix i cu
  assume "find (\<lambda>u. u_id u = i) (tenant_users_tbl (db c)) = Some cu \<and> u_role cu = Owner"
    and "owner_count (u_tenant_id cu) (db c) = 1"
  then show "fst (deleteUser i c) = Inl (TenantBusinessRuleError ''Cannot delete the last owner'')"
    and "db (snd (deleteUser i c)) = db c"
    using deleteUser_sole_owner_fails[of i c cu] by simp_all
next
  fix i cu r nr
  assume "find (\<lambda>u. u_id u = i) (tenant_users_tbl (db c)) = Some cu \<and> u_role cu = Owner"
    and "TenantRoleEnum r = Some nr \<and> nr \<noteq> Owner
         \<and> other_admin_count (u_tenant_id cu) i (db c) = 0"
  then show "fst (updateUserRole i r c)
             = Inl (TenantBusinessRuleError
                 ''Cannot remove owner role - tenant must have at least one admin'')"
    and "db (snd (updateUserRole i r c)) = db c"
    using updateUserRole_demote_fails[of i c cu r nr] by simp_all
next
  fix i cu
  assume "find (\<lambda>u. u_id u = i) (tenant_users_tbl (db c)) = Some cu \<and> u_role cu = Owner"
    and "active_owner_count (u_tenant_id cu) (db c) = 1"
  then show "fst (updateUserStatus i ''suspended'' c)
             = Inl (TenantBusinessRuleError ''Cannot suspend the last active owner'')"
    and "db (snd (updateUserStatus i ''suspended'' c)) = db c"
    using updateUserStatus_suspend_fails[of i c cu] by simp_all
next
  fix t op
  assume "single_owner (db c)"
    and "owner_count t (db c) = 1 \<and> owner_count t (db (run_op z op c)) = 0"
  then show "\<exists>i r nr cu. op = UpdateUserRole i r \<and> TenantRoleEnum r = Some nr \<and> nr \<noteq> Owner
           \<and> find (\<lambda>u. u_id u = i) (tenant_users_tbl (db c)) = Some cu
           \<and> u_role cu = Owner \<and> u_tenant_id cu = t
           \<and> 0 < other_admin_count t i (db c)"
    using only_demotion_removes_owner[of c t z op] by simp
qed

text \<open>Witness for C1: the tenant with its owner alone, where all three guards reject, and
  the tenant with an administrator, where the demotion is the operation that empties the
  owner count.\<close>

theorem owner_count_invariant_and_guards_witness:
  "owner_count ''t1''
     (db (run_ops any_zod
            [DeleteUser ''u1'', UpdateUserRole ''u1'' ''member'', UpdateUserStatus ''u1'' ''suspended'']
            (client_of sole_store))) \<le> 1
   \<and> fst (deleteUser ''u1'' (client_of sole_store))
       = Inl (TenantBusinessRuleError ''Cannot delete the last owner'')
   \<and> db (snd (deleteUser ''u1'' (client_of sole_store))) = sole_store
   \<and> fst (updateUserRole ''u1'' ''member'' (client_of sole_store))
       = Inl (TenantBusinessRuleError
           ''Cannot remove owner role - tenant must have at least one admin'')
   \<and> db (snd (updateUserRole ''u1'' ''member'' (client_of sole_store))) = sole_store
   \<and> fst (updateUserStatus ''u1'' ''suspended'' (client_of sole_store))
       = Inl (TenantBusinessRuleError ''Cannot suspend the last active owner'')
   \<and> db (snd (updateUserStatus ''u1'' ''suspended'' (client_of sole_store))) = sole_store
   \<and> 0 < other_admin_count ''t1'' ''u1'' (db (client_of acme_store))"
proof -
  let ?c = "client_of sole_store"
  let ?a = "client_of acme_store"
  have so: "single_owner (db ?c)"
    by (auto simp add: single_owner_def owner_count_def example_defs sole_store_def)
  have soa: "single_owner (db ?a)"
    by (auto simp add: single_owner_def owner_count_def example_defs)
  have f: "find (\<lambda>u. u_id u = ''u1'') (tenant_users_tbl (db ?c)) = Some ada \<and> u_role ada = Owner"
    by (simp add: example_defs sole_store_def)
  have n: "owner_count (u_tenant_id ada) (db ?c) = 1"
    "active_owner_count (u_tenant_id ada) (db ?c) = 1"
    "TenantRoleEnum ''member'' = Some Member \<and> Member \<noteq> Owner
       \<and> other_admin_count (u_tenant_id ada) ''u1'' (db ?c) = 0"
    by (simp_all add: owner_count_def active_owner_count_def other_admin_count_def
          TenantRoleEnum_def example_defs sole_store_def)
  have d: "db ?c = sole_store" by (simp add: client_of_def)
  have drop: "owner_count ''t1'' (db ?a) = 1
              \<and> owner_count ''t1'' (db (run_op any_zod (UpdateUserRole ''u1'' ''member'') ?a)) = 0"
    by (simp add: owner_count_def example_defs user_service_defs promise_defs prisma_defs)
  note T = owner_count_invariant_and_guards[OF so, of any_zod
      "[DeleteUser ''u1'', UpdateUserRole ''u1'' ''member'', UpdateUserStatus ''u1'' ''suspended'']"]
  note A = owner_count_invariant_and_guards[OF soa, of any_zod "[]"]
  from T have 1: "owner_count ''t1''
     (db (run_ops any_zod
            [DeleteUser ''u1'', UpdateUserRole ''u1'' ''member'', UpdateUserStatus ''u1'' ''suspended'']
            ?c)) \<le> 1"
    by blast
  from T f n(1) have 2: "fst (deleteUser ''u1'' ?c)
       = Inl (TenantBusinessRuleError ''Cannot delete the last owner'')
     \<and> db (snd (deleteUser ''u1'' ?c)) = db ?c"
    by blast
  from T f n(3) have 3: "fst (updateUserRole ''u1'' ''member'' ?c)
       = Inl (TenantBusinessRuleError
           ''Cannot remove owner role - tenant must have at least one admin'')
     \<and> db (snd (updateUserRole ''u1'' ''member'' ?c)) = db ?c"
    by blast
  from T f n(2) have 4: "fst (updateUserStatus ''u1'' ''suspended'' ?c)
       = Inl (TenantBusinessRuleError ''Cannot suspend the last active owner'')
     \<and> db (snd (updateUserStatus ''u1'' ''suspended'' ?c)) = db ?c"
    by blast
  from A drop have 5: "0 < other_admin_count ''t1'' ''u1'' (db ?a)"
    by blast
  from 1 2 3 4 5 d show ?thesis by simp
qed

text \<open>
  Counterexample to C1 as stated: in the tenant with owner \<open>u1\<close> and administrator
  \<open>u2\<close>, \<^verbatim>\<open>updateUserRole\<close> demotes the sole owner to member, resolves, and the
  tenant's owner count goes from 1 to 0.
\<close>

theorem demotion_with_admin_counterexample:
  "single_owner (db (client_of acme_store))
   \<and> owner_count ''t1'' (db (client_of acme_store)) = 1
   \<and> fst (updateUserRole ''u1'' ''member'' (client_of acme_store)) = Inr (ada\<lparr>u_role := Member\<rparr>)
   \<and> owner_count ''t1'' (db (snd (updateUserRole ''u1'' ''member'' (client_of acme_store)))) = 0"
  by (auto simp add: single_owner_def owner_count_def example_defs user_service_defs
        promise_defs prisma_defs)

subsection \<open>Transactions\<close>

lemma transaction_rollback:
  "isl (fst (transaction f c)) \<Longrightarrow> db (snd (transaction f c)) = db c"
  by (simp add: transaction_def split: prod.splits sum.splits)

lemma enforceBusinessRules_reads:
  "db (snd (enforceBusinessRules v c)) = db c"
  by (simp add: enforceBusinessRules_def promise_defs prisma_defs split: option.splits)

lemma createUser_rollback:
  "isl (fst (createUser z x nid c)) \<Longrightarrow> db (snd (createUser z x nid c)) = db c"
proof (cases "validateTenantUser z x")
  case (Inl e)
  then show ?thesis by (simp add: createUser_def reject_def)
next
  case (Inr v)
  obtain r c1 where e: "enforceBusinessRules v c = (r, c1)" by (cases "enforceBusinessRules v c")
  then have same: "db c1 = db c" using enforceBusinessRules_reads[of v c] by simp
  assume f: "isl (fst (createUser z x nid c))"
  show ?thesis
  proof (cases r)
    case (Inl err)
    with Inr e same show ?thesis by (simp add: createUser_def await_def)
  next
    case (Inr u)
    with \<open>validateTenantUser z x = Inr v\<close> e same f transaction_rollback[of _ c1]
    show ?thesis by (simp add: createUser_def await_def)
  qed
qed

lemmas tenant_service_defs =
  createTenant_def getTenantBySlug_def suspendTenant_def activateTenant_def
  deleteTenant_def validateTenant_def slug_regex_def TenantStatusEnum_def with_default_def

lemmas invitation_service_defs =
  createInvitation_def acceptInvitation_def revokeInvitation_def validateTenantInvitation_def
  TenantRoleEnum_def InvitationStatusEnum_def with_default_def seven_days_def

text \<open>
  Claim C7. Whenever \<^verbatim>\<open>createTenant\<close>, \<^verbatim>\<open>createUser\<close>, \<^verbatim>\<open>createInvitation\<close>,
  \<^verbatim>\<open>acceptInvitation\<close>, \<^verbatim>\<open>revokeInvitation\<close> or \<^verbatim>\<open>deleteTenant\<close> rejects, with
  whatever error, the store (tenants, memberships, invitations) is exactly what it was
  before the operation started.
\<close>

theorem failed_operation_changes_nothing:
  "(isl (fst (createTenant x owner email tid uid c)) \<longrightarrow>
      db (snd (createTenant x owner email tid uid c)) = db c)
   \<and> (isl (fst (createUser z ux nid c)) \<longrightarrow> db (snd (createUser z ux nid c)) = db c)
   \<and> (isl (fst (createInvitation z ix token now nid c)) \<longrightarrow>
      db (snd (createInvitation z ix token now nid c)) = db c)
   \<and> (isl (fst (acceptInvitation i cid now nid c)) \<longrightarrow>
      db (snd (acceptInvitation i cid now nid c)) = db c)
   \<and> (isl (fst (revokeInvitation i c)) \<longrightarrow> db (snd (revokeInvitation i c)) = db c)
   \<and> (isl (fst (deleteTenant tid c)) \<longrightarrow> db (snd (deleteTenant tid c)) = db c)"
proof (intro conjI impI)
  assume "isl (fst (createTenant x owner email tid uid c))"
  then show "db (snd (createTenant x owner email tid uid c)) = db c"
    by (cases "validateTenant x") (simp_all add: createTenant_def reject_def transaction_rollback)
next
  assume "isl (fst (createUser z ux nid c))"
  then show "db (snd (createUser z ux nid c)) = db c" by (rule createUser_rollback)
next
  assume "isl (fst (createInvitation z ix token now nid c))"
  then show "db (snd (createInvitation z ix token now nid c)) = db c"
    by (cases "validateTenantInvitation z now ix token (now + seven_days)")
       (simp_all add: createInvitation_def reject_def transaction_rollback)
next
  assume "isl (fst (acceptInvitation i cid now nid c))"
  then show "db (snd (acceptInvitation i cid now nid c)) = db c"
    by (simp add: acceptInvitation_def transaction_rollback)
next
  assume "isl (fst (revokeInvitation i c))"
  then show "db (snd (revokeInvitation i c)) = db c"
    by (simp add: revokeInvitation_def transaction_rollback)
next
  assume "isl (fst (deleteTenant tid c))"
  then show "db (snd (deleteTenant tid c)) = db c"
    by (simp add: deleteTenant_def transaction_rollback)
qed

text \<open>Witness for C7: \<^verbatim>\<open>createTenant\<close> whose owner row collides with an existing
  membership id after the tenant row was inserted, and \<^verbatim>\<open>acceptInvitation\<close> on an
  expired invitation after its status was updated; both reject and the store is as
  before.\<close>

theorem failed_operation_changes_nothing_witness:
  "isl (fst (createTenant beta_input ''ext_3'' ''c@beta.com'' ''t2'' ''u1'' (client_of acme_store)))
   \<and> db (snd (createTenant beta_input ''ext_3'' ''c@beta.com'' ''t2'' ''u1'' (client_of acme_store)))
       = acme_store
   \<and> isl (fst (acceptInvitation ''i1'' ''ext_3'' 2000 ''u3'' (client_of invited_store)))
   \<and> db (snd (acceptInvitation ''i1'' ''ext_3'' 2000 ''u3'' (client_of invited_store)))
       = invited_store"
proof -
  have 1: "isl (fst (createTenant beta_input ''ext_3'' ''c@beta.com'' ''t2'' ''u1''
                       (client_of acme_store)))"
    by (simp add: tenant_service_defs tenant_users_conflict_def example_defs beta_input_def
          promise_defs prisma_defs)
  have 2: "isl (fst (acceptInvitation ''i1'' ''ext_3'' 2000 ''u3'' (client_of invited_store)))"
    by (simp add: invitation_service_defs example_defs invited_store_def pending_invite_def
          promise_defs prisma_defs)
  have d: "db (client_of acme_store) = acme_store" "db (client_of invited_store) = invited_store"
    by (simp_all add: client_of_def)
  from failed_operation_changes_nothing
         [of beta_input "''ext_3''" "''c@beta.com''" "''t2''" "''u1''" "client_of acme_store"]
       failed_operation_changes_nothing
         [where i = "''i1''" and cid = "''ext_3''" and now = 2000 and nid = "''u3''"
            and c = "client_of invited_store"]
       1 2 d
  show ?thesis by metis
qed

subsection \<open>Expired invitations\<close>

text \<open>For any pending invitation past its expiry the call rejects and the store, the
  invitation's status included, is what it was.\<close>

lemma acceptInvitation_expired_rolls_back:
  "find (\<lambda>v. i_id v = i) (tenant_invitations_tbl (db c)) = Some v \<Longrightarrow>
   i_status v = Pending \<Longrightarrow> i_expires_at v < now \<Longrightarrow>
   fst (acceptInvitation i cid now nid c)
     = Inl (TenantBusinessRuleError ''Invitation has expired'')
   \<and> db (snd (acceptInvitation i cid now nid c)) = db c"
  by (simp add: acceptInvitation_def promise_defs prisma_defs)

text \<open>
  Claim C6. The claim says that accepting a pending invitation past its expiry stores the
  status expired and then fails, so that later attempts find it no longer pending.
  \<^verbatim>\<open>acceptInvitation\<close> updates the status and throws inside the same transaction
  callback, so the update is rolled back with the rest: for the invitation that expired at
  time 1000, accepted at time 2000, the call rejects with ``Invitation has expired'', the
  stored invitation is still the pending one, and a later attempt takes the same path
  again. No membership is created.
\<close>

theorem acceptInvitation_expired_not_stored:
  "fst (acceptInvitation ''i1'' ''ext_3'' 2000 ''u3'' (client_of invited_store))
     = Inl (TenantBusinessRuleError ''Invitation has expired'')
   \<and> tenant_invitations_tbl
       (db (snd (acceptInvitation ''i1'' ''ext_3'' 2000 ''u3'' (client_of invited_store))))
     = [pending_invite]
   \<and> i_status pending_invite = Pending
   \<and> fst (acceptInvitation ''i1'' ''ext_3'' 3000 ''u3''
            (snd (acceptInvitation ''i1'' ''ext_3'' 2000 ''u3'' (client_of invited_store))))
     = Inl (TenantBusinessRuleError ''Invitation has expired'')"
  by (simp add: invitation_service_defs example_defs invited_store_def pending_invite_def
        promise_defs prisma_defs)

subsection \<open>Creating a tenant and resolving it\<close>

lemma validateTenant_Inr:
  "validateTenant x = Inr v \<Longrightarrow> d_slug v = in_slug x"
  by (auto simp: validateTenant_def split: option.splits if_splits)

lemma find_append_new:
  "find P xs = None \<Longrightarrow> P y \<Longrightarrow> find P (xs @ [y]) = Some y"
  by (induction xs) (auto split: if_splits)

text \<open>
  Claim C8, as amended. For every valid tenant payload with a fresh slug, every owner
  identity that has no membership yet, and every email, \<^verbatim>\<open>createTenant\<close> resolves, and
  \<^verbatim>\<open>getTenantBySlug\<close> on that slug then returns the created tenant, whose slug is the
  payload's; the tenant has exactly one membership, with role owner, status active and
  the creator's identity. The two ids the database generates are new, and no membership
  row refers to the new tenant id beforehand.
\<close>

theorem createTenant_getTenantBySlug_roundtrip:
  assumes valid: "validateTenant x = Inr v"
    and fresh_slug: "find (\<lambda>t. t_slug t = in_slug x) (tenants_tbl (db c)) = None"
    and fresh_identity: "find (\<lambda>u. u_clerk_user_id u = owner) (tenant_users_tbl (db c)) = None"
    and fresh_tid: "find (\<lambda>t. t_id t = tid) (tenants_tbl (db c)) = None"
    and fresh_uid: "find (\<lambda>u. u_id u = uid) (tenant_users_tbl (db c)) = None"
    and unreferenced: "filter (\<lambda>u. u_tenant_id u = tid) (tenant_users_tbl (db c)) = []"
  shows "\<exists>t ownerUser c' c''.
           createTenant x owner email tid uid c = (Inr (t, ownerUser), c')
           \<and> getTenantBySlug (in_slug x) c' = (Inr t, c'')
           \<and> t_slug t = in_slug x
           \<and> filter (\<lambda>u. u_tenant_id u = t_id t) (tenant_users_tbl (db c'')) = [ownerUser]
           \<and> u_role ownerUser = Owner \<and> u_status ownerUser = Active
           \<and> u_clerk_user_id ownerUser = owner"
proof -
  let ?t = "\<lparr>t_id = tid, t_slug = d_slug v, t_name = d_name v, t_settings = d_settings v,
             t_status = d_tenant_status v\<rparr>"
  let ?o = "\<lparr>u_id = uid, u_tenant_id = tid, u_clerk_user_id = owner, u_email = email,
             u_first_name = None, u_last_name = None, u_role = Owner, u_status = Active,
             u_metadata = ''{}''\<rparr>"
  have s: "d_slug v = in_slug x" using valid by (rule validateTenant_Inr)
  have no_t: "\<not> list_ex (\<lambda>t. t_id t = tid \<or> t_slug t = in_slug x) (tenants_tbl (db c))"
    using fresh_slug fresh_tid by (auto simp: list_ex_iff find_None_iff)
  have no_u: "\<not> list_ex (tenant_users_conflict ?o) (tenant_users_tbl (db c))"
    using fresh_uid fresh_identity unreferenced
    by (auto simp: list_ex_iff find_None_iff filter_empty_conv tenant_users_conflict_def)
  obtain c' where run: "createTenant x owner email tid uid c = (Inr (?t, ?o), c')"
    and tenants': "tenants_tbl (db c') = tenants_tbl (db c) @ [?t]"
    and users': "tenant_users_tbl (db c') = tenant_users_tbl (db c) @ [?o]"
    using valid fresh_slug no_t no_u s
    by (simp add: createTenant_def promise_defs prisma_defs)
  have found: "find (\<lambda>t. t_slug t = in_slug x) (tenants_tbl (db c')) = Some ?t"
    using fresh_slug s by (simp add: tenants' find_append_new)
  obtain c'' where get: "getTenantBySlug (in_slug x) c' = (Inr ?t, c'')" and same: "db c'' = db c'"
    using found by (simp add: getTenantBySlug_def promise_defs prisma_defs)
  have members: "filter (\<lambda>u. u_tenant_id u = t_id ?t) (tenant_users_tbl (db c'')) = [?o]"
    using unreferenced by (simp add: same users')
  from run get members s show ?thesis by auto
qed

text \<open>Witness for C8: the spec's scenario, tenant \<open>acme\<close> created on the empty store by
  identity \<open>ext_1\<close>.\<close>

theorem createTenant_getTenantBySlug_witness:
  "\<exists>t ownerUser.
      fst (createTenant acme_input ''ext_1'' ''a@acme.com'' ''t1'' ''u1'' (client_of empty_store))
        = Inr (t, ownerUser)
      \<and> fst (getTenantBySlug ''acme''
               (snd (createTenant acme_input ''ext_1'' ''a@acme.com'' ''t1'' ''u1''
                       (client_of empty_store)))) = Inr t
      \<and> t_slug t = ''acme'' \<and> u_role ownerUser = Owner \<and> u_status ownerUser = Active
      \<and> u_clerk_user_id ownerUser = ''ext_1''"
proof -
  let ?c = "client_of empty_store"
  have v: "validateTenant acme_input
             = Inr \<lparr>d_slug = ''acme'', d_name = ''Acme Inc'', d_settings = ''{}'',
                    d_tenant_status = Active\<rparr>"
    by (simp add: validateTenant_def slug_regex_def with_default_def acme_input_def)
  have s: "in_slug acme_input = ''acme''" by (simp add: acme_input_def)
  have h: "find (\<lambda>t. t_slug t = in_slug acme_input) (tenants_tbl (db ?c)) = None"
    "find (\<lambda>u. u_clerk_user_id u = ''ext_1'') (tenant_users_tbl (db ?c)) = None"
    "find (\<lambda>t. t_id t = ''t1'') (tenants_tbl (db ?c)) = None"
    "find (\<lambda>u. u_id u = ''u1'') (tenant_users_tbl (db ?c)) = None"
    "filter (\<lambda>u. u_tenant_id u = ''t1'') (tenant_users_tbl (db ?c)) = []"
    by (simp_all add: client_of_def empty_store_def)
  from createTenant_getTenantBySlug_roundtrip[OF v h, of "''a@acme.com''"]
  obtain t ownerUser c' c'' where
    "createTenant acme_input ''ext_1'' ''a@acme.com'' ''t1'' ''u1'' ?c = (Inr (t, ownerUser), c')"
    "getTenantBySlug ''acme'' c' = (Inr t, c'')"
    "t_slug t = ''acme''" "u_role ownerUser = Owner" "u_status ownerUser = Active"
    "u_clerk_user_id ownerUser = ''ext_1''"
    unfolding s by blast
  then show ?thesis
    by (intro exI[of _ t] exI[of _ ownerUser]) simp
qed

text \<open>
  Counterexample to C8 as stated: the payload \<open>beta\<close> is valid and its slug is fresh,
  but the creator \<open>ext_1\<close> already has a membership (in tenant \<open>acme\<close>). The owner
  row breaks the key on the external identity, \<^verbatim>\<open>createTenant\<close> rejects, the tenant row
  is rolled back, and \<^verbatim>\<open>getTenantBySlug\<close> on the slug finds nothing.
\<close>

theorem createTenant_existing_identity_counterexample:
  "validateTenant beta_input
     = Inr \<lparr>d_slug = ''beta'', d_name = ''Beta'', d_settings = ''{}'', d_tenant_status = Active\<rparr>
   \<and> find (\<lambda>t. t_slug t = ''beta'') (tenants_tbl (db (client_of acme_store))) = None
   \<and> fst (createTenant beta_input ''ext_1'' ''a@beta.com'' ''t2'' ''u9'' (client_of acme_store))
     = Inl (PrismaClientKnownRequestError ''P2002'')
   \<and> fst (getTenantBySlug ''beta''
            (snd (createTenant beta_input ''ext_1'' ''a@beta.com'' ''t2'' ''u9''
                    (client_of acme_store))))
     = Inl (TenantNotFoundError ''Tenant not found'')"
  by (simp add: tenant_service_defs tenant_users_conflict_def example_defs beta_input_def
        promise_defs prisma_defs)

subsection \<open>The tenant-scoped create helper\<close>

text \<open>
  Claim C5. The claim says that the row the tenant-scoped create helper produces carries
  the tenant id of the active scope whatever the payload holds. \<^verbatim>\<open>tenantUsers.create\<close>
  does set \<^verbatim>\<open>tenant_id\<close> from \<^verbatim>\<open>this.tenantId\<close> when it builds the arguments, but it
  never gets there: \<^verbatim>\<open>originalMethods\<close> is \<^verbatim>\<open>undefined\<close>, so every call rejects and
  stores nothing, on any client and for any payload. On a client bound to tenant
  \<open>t1\<close>, for a payload naming tenant \<open>t9\<close>, the call rejects with the
  \<^verbatim>\<open>TypeError\<close> and the memberships are the two there were.
\<close>

theorem tenantUsers_create_never_stores:
  "isl (fst (tenantUsers_create data c))
   \<and> db (snd (tenantUsers_create data c)) = db c
   \<and> fst (tenantUsers_create (cara\<lparr>u_tenant_id := ''t9''\<rparr>)
            (setTenantContext ''t1'' (client_of acme_store)))
     = Inl (TypeError ''Cannot read properties of undefined (reading 'create')'')
   \<and> tenant_users_tbl
       (db (snd (tenantUsers_create (cara\<lparr>u_tenant_id := ''t9''\<rparr>)
                   (setTenantContext ''t1'' (client_of acme_store)))))
     = [ada, bob]"
proof -
  have general: "isl (fst (tenantUsers_create data c))
                 \<and> db (snd (tenantUsers_create data c)) = db c"
    by (simp add: tenantUsers_create_def super_tenant_users_def gateway_defs promise_defs
          split: option.splits list.splits)
  have concrete:
    "fst (tenantUsers_create (cara\<lparr>u_tenant_id := ''t9''\<rparr>)
            (setTenantContext ''t1'' (client_of acme_store)))
       = Inl (TypeError ''Cannot read properties of undefined (reading 'create')'')
     \<and> tenant_users_tbl
         (db (snd (tenantUsers_create (cara\<lparr>u_tenant_id := ''t9''\<rparr>)
                     (setTenantContext ''t1'' (client_of acme_store)))))
       = [ada, bob]"
    by (simp add: tenantUsers_create_def super_tenant_users_def gateway_defs promise_defs
          setTenantContext_def client_of_def acme_store_def)
  from general concrete show ?thesis by simp
qed

subsection \<open>Tenant context of a non-active membership\<close>

lemma spread_idem: "spread DEFAULT_OPTIONS (spread DEFAULT_OPTIONS options) = spread DEFAULT_OPTIONS options"
  by (simp add: spread_def DEFAULT_OPTIONS_def or_else_def split: option.splits)

lemma extractTenantSlug_spread:
  "extractTenantSlug req (spread DEFAULT_OPTIONS options) = extractTenantSlug req options"
  by (simp add: extractTenantSlug_def spread_idem)

lemma find_filter_single: "filter P xs = [y] \<Longrightarrow> find P xs = Some y"
  by (induction xs) (auto split: if_splits)

lemma find_filter_none: "filter P xs = [y] \<Longrightarrow> \<not> Q y \<Longrightarrow> find (\<lambda>x. P x \<and> Q x) xs = None"
proof -
  assume a: "filter P xs = [y]" and q: "\<not> Q y"
  have "filter (\<lambda>x. P x \<and> Q x) xs = filter Q (filter P xs)" by (simp add: conj_commute)
  with a q have "filter (\<lambda>x. P x \<and> Q x) xs = []" by simp
  then show ?thesis by (simp add: find_None_iff filter_empty_conv)
qed

text \<open>
  Claim C9. \<^verbatim>\<open>getTenantContext\<close> looks the caller's membership up by tenant id and
  identity without a filter on status: for a caller whose one membership in the resolved
  tenant is suspended or cancelled it still resolves with a full context, carrying that
  membership and the permission list of its role, while \<^verbatim>\<open>validateTenantAccess\<close>
  returns \<^verbatim>\<open>null\<close> for the same tenant and identity.
\<close>

theorem getTenantContext_ignores_status:
  assumes slug: "extractTenantSlug req options = Some s" "s \<noteq> []"
    and tenant: "find (\<lambda>t. t_slug t = s) (tenants_tbl (db c)) = Some t"
    and auth: "userId \<noteq> []"
    and member: "filter (\<lambda>u. u_tenant_id u = t_id t \<and> u_clerk_user_id u = userId)
                   (tenant_users_tbl (db c)) = [u]"
    and inactive: "u_status u \<noteq> Active"
  shows "fst (getTenantContext req (Some userId) options c)
           = Inr (Some \<lparr>ctx_tenant = t, ctx_user = u,
                        ctx_permissions = getRolePermissions (role_text (u_role u))\<rparr>)
         \<and> fst (validateTenantAccess (t_id t) userId c) = Inr None"
proof -
  have f: "find (\<lambda>u. u_tenant_id u = t_id t \<and> u_clerk_user_id u = userId)
             (tenant_users_tbl (db c)) = Some u"
    using member by (rule find_filter_single)
  have n: "find (\<lambda>u. u_tenant_id u = t_id t \<and> u_clerk_user_id u = userId \<and> u_status u = Active)
             (tenant_users_tbl (db c)) = None"
    using find_filter_none[OF member, of "\<lambda>u. u_status u = Active"] inactive
    by simp
  have 1: "fst (getTenantContext req (Some userId) options c)
           = Inr (Some \<lparr>ctx_tenant = t, ctx_user = u,
                        ctx_permissions = getRolePermissions (role_text (u_role u))\<rparr>)"
    using slug tenant auth f
    by (simp add: getTenantContext_def extractTenantSlug_spread or_null_def Let_def
          promise_defs prisma_defs)
  have 2: "fst (validateTenantAccess (t_id t) userId c) = Inr None"
    using n by (simp add: validateTenantAccess_def promise_defs prisma_defs)
  from 1 2 show ?thesis by simp
qed

text \<open>Witness for C9: a suspended administrator of the tenant, whose request names the
  tenant in the header, receives the context with the twelve administrator permissions.\<close>

theorem getTenantContext_ignores_status_witness:
  "fst (getTenantContext acme_request (Some ''ext_3'') no_options (client_of cara_store))
     = Inr (Some \<lparr>ctx_tenant = acme, ctx_user = cara,
                  ctx_permissions = getRolePermissions ''admin''\<rparr>)
   \<and> u_status cara = Suspended
   \<and> length (getRolePermissions ''admin'') = 12
   \<and> fst (validateTenantAccess ''t1'' ''ext_3'' (client_of cara_store)) = Inr None"
proof -
  let ?c = "client_of cara_store"
  have h: "extractTenantSlug acme_request no_options = Some ''acme''" "''acme'' \<noteq> []"
    "find (\<lambda>t. t_slug t = ''acme'') (tenants_tbl (db ?c)) = Some acme"
    "''ext_3'' \<noteq> []"
    "filter (\<lambda>u. u_tenant_id u = t_id acme \<and> u_clerk_user_id u = ''ext_3'')
       (tenant_users_tbl (db ?c)) = [cara]"
    "u_status cara \<noteq> Active"
    by (simp_all add: extractTenantSlug_def spread_def DEFAULT_OPTIONS_def or_else_def
          or_null_def example_defs cara_def cara_store_def acme_request_def no_options_def)
  have e: "role_text (u_role cara) = ''admin''" "t_id acme = ''t1''" "u_status cara = Suspended"
    "length (getRolePermissions ''admin'') = 12"
    by (simp_all add: role_text_def cara_def acme_def getRolePermissions_def permissions_def)
  from getTenantContext_ignores_status[OF h] show ?thesis
    by (simp only: e simp_thms)
qed

subsection \<open>Transactions and the session scope of the operations\<close>


end
